theory Spec2Isabelle
  imports Complex_Main "HOL-Library.Multiset"
begin

section \<open>Values exchanged between the stages\<close>

text \<open>
  The pipeline passes Python dictionaries built from decoded JSON between its stages.
  A decoded JSON value is a \<open>json\<close>; a dictionary is an association list in insertion
  order (\<open>pydict\<close>), read with \<open>map_of\<close>. Python floats are modelled as exact reals.
\<close>

datatype json =
    JNull
  | JBool bool
  | JInt int
  | JFloat real
  | JStr string
  | JList "json list"
  | JObj "(string \<times> json) list"

type_synonym pydict = "(string \<times> json) list"

text \<open>Python truthiness (\<open>if x:\<close>, \<open>not x\<close>, \<open>x or y\<close>) of a decoded JSON value.\<close>

fun truthy :: "json \<Rightarrow> bool" where
  "truthy JNull = False"
| "truthy (JBool b) = b"
| "truthy (JInt i) = (i \<noteq> 0)"
| "truthy (JFloat r) = (r \<noteq> 0)"
| "truthy (JStr s) = (s \<noteq> [])"
| "truthy (JList xs) = (xs \<noteq> [])"
| "truthy (JObj kvs) = (kvs \<noteq> [])"

text \<open>\<open>d.get(k, default)\<close>, \<open>k in d\<close> and \<open>d[k] = v\<close> on a dictionary.\<close>

definition dict_get :: "pydict \<Rightarrow> string \<Rightarrow> json \<Rightarrow> json" where
  "dict_get d k dflt = (case map_of d k of None \<Rightarrow> dflt | Some v \<Rightarrow> v)"

definition dict_has :: "pydict \<Rightarrow> string \<Rightarrow> bool" where
  "dict_has d k = (map_of d k \<noteq> None)"

fun dict_set :: "pydict \<Rightarrow> string \<Rightarrow> json \<Rightarrow> pydict" where
  "dict_set [] k v = [(k, v)]"
| "dict_set ((k', v') # d) k v = (if k' = k then (k, v) # d else (k', v') # dict_set d k v)"

section \<open>Constants (app/constants.py)\<close>

definition INTENT_ANALYTICAL :: string where "INTENT_ANALYTICAL = ''analytical''"
definition INTENT_FACTUAL :: string where "INTENT_FACTUAL = ''factual''"
definition INTENT_CONVERSATIONAL :: string where "INTENT_CONVERSATIONAL = ''conversational''"
definition INTENT_TRANSACTIONAL :: string where "INTENT_TRANSACTIONAL = ''transactional''"

definition DOMAIN_WEATHER :: string where "DOMAIN_WEATHER = ''weather''"
definition DOMAIN_TRANSPORTATION :: string where "DOMAIN_TRANSPORTATION = ''transportation''"
definition DOMAIN_FINANCE :: string where "DOMAIN_FINANCE = ''finance''"
definition DOMAIN_GENERAL :: string where "DOMAIN_GENERAL = ''general''"

definition VALID_INTENTS :: "string list" where
  "VALID_INTENTS = [INTENT_ANALYTICAL, INTENT_FACTUAL, INTENT_CONVERSATIONAL, INTENT_TRANSACTIONAL]"
definition VALID_DOMAINS :: "string list" where
  "VALID_DOMAINS = [DOMAIN_WEATHER, DOMAIN_TRANSPORTATION, DOMAIN_FINANCE, DOMAIN_GENERAL]"

definition SOURCE_LOCAL_KB :: string where "SOURCE_LOCAL_KB = ''local_kb''"
definition SOURCE_DOMAIN_API :: string where "SOURCE_DOMAIN_API = ''domain_api''"
definition SOURCE_WEB_SEARCH :: string where "SOURCE_WEB_SEARCH = ''web_search''"

lemmas const_defs =
  INTENT_ANALYTICAL_def INTENT_FACTUAL_def INTENT_CONVERSATIONAL_def INTENT_TRANSACTIONAL_def
  DOMAIN_WEATHER_def DOMAIN_TRANSPORTATION_def DOMAIN_FINANCE_def DOMAIN_GENERAL_def
  VALID_INTENTS_def VALID_DOMAINS_def
  SOURCE_LOCAL_KB_def SOURCE_DOMAIN_API_def SOURCE_WEB_SEARCH_def

section \<open>Source selection (app/controller/source\_selection.py)\<close>

text \<open>
  The function returns a dictionary with the three fixed keys \<open>sources\<close>,
  \<open>domain_handler\<close> and \<open>priority\<close>: a record. \<open>list.insert(0, x)\<close> is \<open>x # xs\<close>,
  \<open>list.append(x)\<close> is \<open>xs @ [x]\<close>.
\<close>

record source_sel =
  sources :: "string list"
  domain_handler :: "string option"
  priority :: "string list"

definition ensure_priority :: "string list \<Rightarrow> string list \<Rightarrow> string list" where
  "ensure_priority srcs prio =
     fold (\<lambda>source p. if source \<in> set p then p else p @ [source]) srcs prio"

definition source_selection :: "pydict \<Rightarrow> source_sel" where
  "source_selection understanding =
    (let domain = dict_get understanding ''domain'' (JStr DOMAIN_GENERAL);
         needs_web = dict_get understanding ''needs_web'' (JBool False);
         intent = dict_get understanding ''intent'' (JStr INTENT_CONVERSATIONAL);
         (handler, sources0, priority0) =
           (if domain = JStr DOMAIN_FINANCE
            then (Some DOMAIN_FINANCE, [SOURCE_DOMAIN_API], [SOURCE_DOMAIN_API])
            else if domain = JStr DOMAIN_WEATHER
            then (Some DOMAIN_WEATHER, [SOURCE_DOMAIN_API], [SOURCE_DOMAIN_API])
            else if domain = JStr DOMAIN_TRANSPORTATION
            then (Some DOMAIN_TRANSPORTATION, [SOURCE_DOMAIN_API], [SOURCE_DOMAIN_API])
            else (None, [], []));
         sources1 = (if truthy needs_web then sources0 @ [SOURCE_WEB_SEARCH] else sources0);
         priority1 =
           (if truthy needs_web
            then (if domain = JStr DOMAIN_GENERAL then SOURCE_WEB_SEARCH # priority0
                  else priority0 @ [SOURCE_WEB_SEARCH])
            else priority0);
         sources2 = sources1 @ [SOURCE_LOCAL_KB];
         priority2 =
           (if intent = JStr INTENT_CONVERSATIONAL
               \<or> (domain = JStr DOMAIN_GENERAL \<and> \<not> truthy needs_web)
            then SOURCE_LOCAL_KB # priority1
            else priority1 @ [SOURCE_LOCAL_KB])
     in \<lparr>sources = sources2, domain_handler = handler,
         priority = ensure_priority sources2 priority2\<rparr>)"

section \<open>Exceptions and strings\<close>

text \<open>
  A raised Python exception is a value carrying the text of \<open>str(e)\<close>; a function that
  can raise returns \<open>exn + 'a\<close>, with \<open>Inl\<close> for the exception.
\<close>

datatype exn =
    UnboundLocalError string
  | KeyError string
  | TypeError string
  | IndexError string
  | JSONDecodeError string
  | RuntimeError string

fun str_of :: "exn \<Rightarrow> string" where
  "str_of (UnboundLocalError m) = m"
| "str_of (KeyError m) = m"
| "str_of (TypeError m) = m"
| "str_of (IndexError m) = m"
| "str_of (JSONDecodeError m) = m"
| "str_of (RuntimeError m) = m"

text \<open>
  \<open>str.strip()\<close>, \<open>str.startswith(p)\<close>, \<open>str.replace(old, "")\<close> and \<open>needle in s\<close>. A string
  is the list of the UTF-8 bytes of the Python string. \<open>str.strip()\<close> removes the
  characters of \<open>str.isspace\<close> from both ends: the ASCII ones (\<open>is_space\<close>: 9 to 13,
  28 to 32) and U+0085, U+00A0, U+1680, U+2000 to U+200A, U+2028, U+2029, U+202F,
  U+205F and U+3000, whose encodings are \<open>UNICODE_SPACES\<close>. \<open>drop_space\<close> removes them
  from the front, given the test for an encoding of two or three bytes; at the end of
  a string the bytes are met in reverse.
\<close>

definition is_space :: "char \<Rightarrow> bool" where
  "is_space c = (let n = (of_char c :: nat) in (9 \<le> n \<and> n \<le> 13) \<or> (28 \<le> n \<and> n \<le> 32))"

definition UNICODE_SPACES :: "string list" where
  "UNICODE_SPACES =
     [[CHR 0xC2, CHR 0x85], [CHR 0xC2, CHR 0xA0], [CHR 0xE1, CHR 0x9A, CHR 0x80],
      [CHR 0xE2, CHR 0x80, CHR 0x80], [CHR 0xE2, CHR 0x80, CHR 0x81],
      [CHR 0xE2, CHR 0x80, CHR 0x82], [CHR 0xE2, CHR 0x80, CHR 0x83],
      [CHR 0xE2, CHR 0x80, CHR 0x84], [CHR 0xE2, CHR 0x80, CHR 0x85],
      [CHR 0xE2, CHR 0x80, CHR 0x86], [CHR 0xE2, CHR 0x80, CHR 0x87],
      [CHR 0xE2, CHR 0x80, CHR 0x88], [CHR 0xE2, CHR 0x80, CHR 0x89],
      [CHR 0xE2, CHR 0x80, CHR 0x8A], [CHR 0xE2, CHR 0x80, CHR 0xA8],
      [CHR 0xE2, CHR 0x80, CHR 0xA9], [CHR 0xE2, CHR 0x80, CHR 0xAF],
      [CHR 0xE2, CHR 0x81, CHR 0x9F], [CHR 0xE3, CHR 0x80, CHR 0x80]]"

fun drop_space :: "(string \<Rightarrow> bool) \<Rightarrow> string \<Rightarrow> string" where
  "drop_space ws (c1 # c2 # c3 # cs) =
     (if is_space c1 then drop_space ws (c2 # c3 # cs)
      else if ws [c1, c2] then drop_space ws (c3 # cs)
      else if ws [c1, c2, c3] then drop_space ws cs
      else c1 # c2 # c3 # cs)"
| "drop_space ws [c1, c2] =
     (if is_space c1 then drop_space ws [c2] else if ws [c1, c2] then [] else [c1, c2])"
| "drop_space ws [c1] = (if is_space c1 then [] else [c1])"
| "drop_space ws [] = []"

definition lstrip :: "string \<Rightarrow> string" where
  "lstrip s = drop_space (\<lambda>p. p \<in> set UNICODE_SPACES) s"

definition rstrip :: "string \<Rightarrow> string" where
  "rstrip s = rev (drop_space (\<lambda>p. rev p \<in> set UNICODE_SPACES) (rev s))"

definition strip :: "string \<Rightarrow> string" where
  "strip s = rstrip (lstrip s)"

definition startswith :: "string \<Rightarrow> string \<Rightarrow> bool" where
  "startswith s p = (take (length p) s = p)"

fun remove_all :: "string \<Rightarrow> string \<Rightarrow> string" where
  "remove_all old [] = []"
| "remove_all old (c # cs) =
     (if old \<noteq> [] \<and> startswith (c # cs) old
      then remove_all old (drop (length old) (c # cs))
      else c # remove_all old cs)"

fun py_contains :: "string \<Rightarrow> string \<Rightarrow> bool" where
  "py_contains [] needle = (needle = [])"
| "py_contains (c # cs) needle = (startswith (c # cs) needle \<or> py_contains cs needle)"

definition MARKDOWN_CODE_START :: string where
  "MARKDOWN_CODE_START = [CHR 0x60, CHR 0x60, CHR 0x60]"
definition MARKDOWN_JSON_START :: string where
  "MARKDOWN_JSON_START = MARKDOWN_CODE_START @ ''json''"

section \<open>The language-model client (app/services/hkgenai.py)\<close>

text \<open>
  The HTTP exchange is the collaborator: \<open>RequestFailed\<close> when \<open>requests.post\<close> or
  \<open>raise_for_status\<close> raises a \<open>RequestException\<close> (with its text), \<open>BodyNotJson\<close> when
  \<open>response.json()\<close> raises (that call stands after the \<open>try\<close> block), \<open>Body\<close> for the
  decoded body. The prompts are arguments of the remote model only, so each call site
  of \<open>chat\<close> has an outcome of its own in the \<open>world\<close> below.
\<close>

datatype http_outcome =
    RequestFailed string
  | BodyNotJson string
  | Body json

text \<open>\<open>(v or "").strip()\<close>: \<open>None\<close> when \<open>v\<close> is truthy and has no \<open>strip\<close> method.\<close>

fun or_empty_strip :: "json \<Rightarrow> string option" where
  "or_empty_strip (JStr s) = Some (strip s)"
| "or_empty_strip v = (if truthy v then None else Some [])"

text \<open>
  \<open>choices[0] if isinstance(choices[0], dict) else {}\<close> for a truthy \<open>choices\<close>: \<open>None\<close>
  when the subscript raises (a dictionary has no key \<open>0\<close>, a number has no subscript).
\<close>

fun first_choice :: "json \<Rightarrow> pydict option" where
  "first_choice (JList (JObj d # xs)) = Some d"
| "first_choice (JList (x # xs)) = Some []"
| "first_choice (JStr (c # cs)) = Some []"
| "first_choice v = None"

text \<open>
  The body of the inner \<open>try\<close>; every exception leaves \<open>content\<close> as it stood, which is
  the empty string at each point where one can be raised.
\<close>

definition extract_content :: "json \<Rightarrow> string" where
  "extract_content data =
    (case data of
       JObj d \<Rightarrow>
         (let choices = dict_get d ''choices'' (JList []) in
          if \<not> truthy choices then []
          else
            (case first_choice choices of
               None \<Rightarrow> []
             | Some first \<Rightarrow>
                 (let m = dict_get first ''message'' JNull;
                      message = (if truthy m then m else JObj [])
                  in case message of
                       JObj md \<Rightarrow>
                         (case or_empty_strip (dict_get md ''content'' JNull) of
                            None \<Rightarrow> []
                          | Some content \<Rightarrow>
                              if content \<noteq> [] then content
                              else (case or_empty_strip (dict_get first ''text'' JNull) of
                                      None \<Rightarrow> []
                                    | Some text \<Rightarrow> text))
                     | _ \<Rightarrow> [])))
     | _ \<Rightarrow> [])"

definition chat :: "http_outcome \<Rightarrow> exn + pydict" where
  "chat h =
    (case h of
       RequestFailed e \<Rightarrow> Inr [(''error'', JStr e)]
     | BodyNotJson e \<Rightarrow> Inl (JSONDecodeError e)
     | Body data \<Rightarrow>
         (let content = extract_content data in
          if content = []
          then Inr [(''content'', JStr []), (''warning'', JStr ''Empty content returned''),
                    (''raw'', data)]
          else Inr [(''content'', JStr content), (''raw'', data)]))"

section \<open>The collaborators of one query\<close>

text \<open>
  Everything the pipeline obtains from outside while it answers one query. Each field is
  the outcome of one call site:
  \<^item> \<open>w_user_context\<close>: the dictionary returned by \<open>get_user_context\<close>;
  \<^item> \<open>w_loads\<close>: the standard library's \<open>json.loads\<close> (\<open>None\<close> for a \<open>JSONDecodeError\<close>);
  \<^item> \<open>w_llm_classify\<close>, \<open>w_llm_direct\<close>, \<open>w_llm_synth\<close>: the HTTP exchange of the
    language model in \<open>classify_with_llm\<close>, \<open>get_hkgai_answer\<close> and \<open>generate_response\<close>;
  \<^item> \<open>w_kb\<close>: the vector index seen by \<open>retrieve_from_local_kb\<close>;
  \<^item> \<open>w_serpapi\<close>, \<open>w_serpapi_fallback\<close>: the list returned by \<open>serpapi_search\<close> (which
    catches every exception) to the call of \<open>retrieve_from_web\<close> for a selected web
    search, and to the call made after a failed domain API;
  \<^item> \<open>w_integration\<close>: what the finance, weather or transportation integration returns
    or raises, by handler name;
  \<^item> \<open>w_bm25\<close>: the raw scores of \<open>rank_bm25.BM25Okapi\<close> for a query and the contents of
    the results, or the exception raised while the texts are built, tokenised and scored.
\<close>

datatype kb_outcome =
    KB_Unavailable
  | KB_Failed string
  | KB_Hits "(real \<times> json option) list"

record world =
  w_user_context :: json
  w_loads :: "string \<Rightarrow> json option"
  w_llm_classify :: http_outcome
  w_llm_direct :: http_outcome
  w_llm_synth :: http_outcome
  w_kb :: kb_outcome
  w_serpapi :: "pydict list"
  w_serpapi_fallback :: "pydict list"
  w_integration :: "string \<Rightarrow> exn + pydict"
  w_bm25 :: "json \<Rightarrow> json list \<Rightarrow> exn + real list"

section \<open>Query understanding (app/controller/query\_understanding.py)\<close>

definition ENTITY_KEY_LOCATIONS :: string where "ENTITY_KEY_LOCATIONS = ''locations''"
definition ENTITY_KEY_ORGANIZATIONS :: string where "ENTITY_KEY_ORGANIZATIONS = ''organizations''"
definition ENTITY_KEY_STOCK_SYMBOLS :: string where "ENTITY_KEY_STOCK_SYMBOLS = ''stock_symbols''"
definition ENTITY_KEY_DATES :: string where "ENTITY_KEY_DATES = ''dates''"
definition ENTITY_KEY_PRODUCTS :: string where "ENTITY_KEY_PRODUCTS = ''products''"
definition ENTITY_KEY_GENERAL :: string where "ENTITY_KEY_GENERAL = ''general''"

lemmas entity_key_defs =
  ENTITY_KEY_LOCATIONS_def ENTITY_KEY_ORGANIZATIONS_def ENTITY_KEY_STOCK_SYMBOLS_def
  ENTITY_KEY_DATES_def ENTITY_KEY_PRODUCTS_def ENTITY_KEY_GENERAL_def

text \<open>The key list of the loop in \<open>classify_with_llm\<close>.\<close>

definition ENTITY_KEYS :: "string list" where
  "ENTITY_KEYS = [ENTITY_KEY_LOCATIONS, ENTITY_KEY_ORGANIZATIONS, ENTITY_KEY_STOCK_SYMBOLS,
                  ENTITY_KEY_DATES, ENTITY_KEY_PRODUCTS, ENTITY_KEY_GENERAL]"

definition create_empty_entities :: pydict where
  "create_empty_entities =
     [(ENTITY_KEY_LOCATIONS, JList []), (ENTITY_KEY_ORGANIZATIONS, JList []),
      (ENTITY_KEY_STOCK_SYMBOLS, JList []), (ENTITY_KEY_DATES, JList []),
      (ENTITY_KEY_PRODUCTS, JList []), (ENTITY_KEY_GENERAL, JList [])]"

text \<open>The removal of a markdown code fence around the reply.\<close>

definition unfence :: "string \<Rightarrow> string" where
  "unfence content =
     (if startswith content MARKDOWN_JSON_START
      then strip (remove_all MARKDOWN_CODE_START (remove_all MARKDOWN_JSON_START content))
      else if startswith content MARKDOWN_CODE_START
      then strip (remove_all MARKDOWN_CODE_START content)
      else content)"

text \<open>
  Lines 143 to 153: the entities value is made a dictionary that has every expected
  key. A value that is no dictionary becomes \<open>{general: v}\<close> when it is a list and
  \<open>{general: []}\<close> otherwise; a key that is absent is added with an empty list; a key
  that is present keeps its value.
\<close>

definition fill_step :: "string \<Rightarrow> pydict \<Rightarrow> pydict" where
  "fill_step key entities =
     (if dict_has entities key then entities else dict_set entities key (JList []))"

definition fill_entity_keys :: "pydict \<Rightarrow> pydict" where
  "fill_entity_keys entities = fold fill_step ENTITY_KEYS entities"

fun normalize_entities :: "json \<Rightarrow> pydict" where
  "normalize_entities (JObj d) = fill_entity_keys d"
| "normalize_entities (JList xs) = fill_entity_keys [(ENTITY_KEY_GENERAL, JList xs)]"
| "normalize_entities v = fill_entity_keys [(ENTITY_KEY_GENERAL, JList [])]"

text \<open>
  \<open>"intent" not in result or "domain" not in result\<close> followed by the subscripts
  \<open>result["intent"]\<close>, for a decoded value that is no dictionary: membership in a list is
  by equality, in a string by substring, and raises on any other value; the subscript
  with a string key raises on a list and on a string.
\<close>

fun validate_non_dict :: "json \<Rightarrow> exn + pydict option" where
  "validate_non_dict (JList xs) =
     (if JStr ''intent'' \<notin> set xs \<or> JStr ''domain'' \<notin> set xs then Inr None
      else Inl (TypeError ''list indices must be integers or slices, not str''))"
| "validate_non_dict (JStr s) =
     (if \<not> py_contains s ''intent'' \<or> \<not> py_contains s ''domain'' then Inr None
      else Inl (TypeError ''string indices must be integers''))"
| "validate_non_dict v = Inl (TypeError ''argument is not iterable'')"

text \<open>
  The steps of \<open>classify_with_llm\<close> on a decoded dictionary: required keys, closed
  value sets, defaults, entities. \<open>x in VALID_INTENTS\<close> compares by equality, so only
  a string of the list is a member.
\<close>

definition validate_result :: "pydict \<Rightarrow> pydict option" where
  "validate_result result =
    (if \<not> dict_has result ''intent'' \<or> \<not> dict_has result ''domain'' then None
     else if dict_get result ''intent'' JNull \<notin> JStr ` set VALID_INTENTS then None
     else if dict_get result ''domain'' JNull \<notin> JStr ` set VALID_DOMAINS then None
     else
       (let result1 =
              (if \<not> dict_has result ''needs_web''
               then dict_set result ''needs_web''
                      (JBool (dict_get result ''domain'' JNull
                                \<in> JStr ` set [DOMAIN_WEATHER, DOMAIN_TRANSPORTATION, DOMAIN_FINANCE]))
               else result);
            result2 =
              (if \<not> dict_has result1 ''entities''
               then dict_set result1 ''entities'' (JObj create_empty_entities)
               else result1);
            entities = normalize_entities (dict_get result2 ''entities'' (JObj []))
        in Some (dict_set result2 ''entities'' (JObj entities))))"

text \<open>
  Lines 106 to 158 of \<open>classify_with_llm\<close>: what the \<open>try\<close> block does with the reply
  of \<open>chat\<close>. The local variable \<open>content\<close> is first assigned at line 110, from the
  reply.
\<close>

definition classify_reply :: "world \<Rightarrow> pydict \<Rightarrow> exn + pydict option" where
  "classify_reply w response =
    (if dict_has response ''error'' then Inr None
     else
       (case dict_get response ''content'' (JStr []) of
          JStr c \<Rightarrow>
            (let content = strip c in
             if content = [] then Inr None
             else
               (case w_loads w (unfence content) of
                  None \<Rightarrow> Inl (JSONDecodeError (unfence content))
                | Some (JObj result) \<Rightarrow> Inr (validate_result result)
                | Some v \<Rightarrow> validate_non_dict v))
        | _ \<Rightarrow> Inl (TypeError ''content has no strip'')))"

text \<open>
  The function with its two handlers. \<open>except json.JSONDecodeError\<close> formats
  \<open>content[:200]\<close> into a log message before it returns \<open>None\<close>: when the exception was
  raised by \<open>chat\<close> (\<open>response.json()\<close> on a body that is no JSON), \<open>content\<close> is not
  bound yet and the handler itself raises \<open>UnboundLocalError\<close>, which leaves the
  function; when it was raised by \<open>json.loads\<close>, \<open>content\<close> is bound and the handler
  returns \<open>None\<close>. \<open>except Exception\<close> returns \<open>None\<close>.
\<close>

definition CONTENT_UNBOUND :: exn where
  "CONTENT_UNBOUND =
     UnboundLocalError (''cannot access local variable '' @ [CHR 0x27] @ ''content''
        @ [CHR 0x27] @ '' where it is not associated with a value'')"

definition classify_with_llm :: "world \<Rightarrow> string \<Rightarrow> exn + pydict option" where
  "classify_with_llm w query =
    (case chat (w_llm_classify w) of
       Inl e \<Rightarrow>
         (case e of JSONDecodeError m \<Rightarrow> Inl CONTENT_UNBOUND | _ \<Rightarrow> Inr None)
     | Inr response \<Rightarrow>
         (case classify_reply w response of Inl e \<Rightarrow> Inr None | Inr r \<Rightarrow> Inr r))"

text \<open>
  \<open>query_understanding\<close> has no \<open>try\<close>: what \<open>classify_with_llm\<close> raises leaves it.
  \<open>if not llm_result\<close> holds for \<open>None\<close> and for an empty dictionary;
  \<open>llm_result["intent"]\<close> raises \<open>KeyError\<close> on a missing key.
\<close>

definition default_understanding :: "json \<Rightarrow> pydict" where
  "default_understanding user_context =
     [(''intent'', JStr INTENT_FACTUAL), (''domain'', JStr DOMAIN_GENERAL),
      (''needs_web'', JBool True), (''entities'', JObj create_empty_entities),
      (''user_context'', user_context)]"

definition query_understanding :: "world \<Rightarrow> string \<Rightarrow> exn + pydict" where
  "query_understanding w query =
    (let user_context = w_user_context w in
     case classify_with_llm w query of
       Inl e \<Rightarrow> Inl e
     | Inr None \<Rightarrow> Inr (default_understanding user_context)
     | Inr (Some llm_result) \<Rightarrow>
         if llm_result = [] then Inr (default_understanding user_context)
         else
           (case map_of llm_result ''intent'' of
              None \<Rightarrow> Inl (KeyError ''intent'')
            | Some intent \<Rightarrow>
                (case map_of llm_result ''domain'' of
                   None \<Rightarrow> Inl (KeyError ''domain'')
                 | Some domain \<Rightarrow>
                     Inr [(''intent'', intent), (''domain'', domain),
                          (''needs_web'', dict_get llm_result ''needs_web'' (JBool False)),
                          (''entities'', dict_get llm_result ''entities'' (JObj [])),
                          (''user_context'', user_context)])))"

section \<open>Retrieval (app/controller/retrieval.py)\<close>

definition RESULT_SOURCE_LOCAL_KB :: string where "RESULT_SOURCE_LOCAL_KB = ''local_kb''"
definition RESULT_SOURCE_WEB :: string where "RESULT_SOURCE_WEB = ''web''"
definition RESULT_SOURCE_DOMAIN_API :: string where "RESULT_SOURCE_DOMAIN_API = ''domain_api''"
definition DEFAULT_SCORE_LOCAL_KB :: real where "DEFAULT_SCORE_LOCAL_KB = 0.5"
definition DEFAULT_SCORE_WEB :: real where "DEFAULT_SCORE_WEB = 0.7"
definition DEFAULT_SCORE_DOMAIN_API :: real where "DEFAULT_SCORE_DOMAIN_API = 0.9"
definition DEFAULT_SCORE_WEB_RESULTS :: real where "DEFAULT_SCORE_WEB_RESULTS = 0.8"
definition MIN_SIMILARITY_THRESHOLD :: real where "MIN_SIMILARITY_THRESHOLD = 0.3"

text \<open>
  An item of a bucket. Every item built in this file has the keys \<open>content\<close> and
  \<open>source\<close>; \<open>score\<close> and \<open>rank\<close> are optional keys, and a score is a float. The keys
  \<open>title\<close> and \<open>url\<close> of a web item are read by no later stage and are left out.
\<close>

record result_item =
  item_content :: json
  item_score :: "real option"
  item_source :: string
  item_rank :: "int option"

record retrieval =
  local_kb_results :: "result_item list"
  web_results :: "result_item list"
  domain_api_results :: pydict

text \<open>
  \<open>retrieve_from_local_kb\<close>. A hit is a similarity with the content of its document,
  \<open>None\<close> when \<open>documents[idx]["content"]\<close> raises. The loop skips a hit below the
  threshold before it reads the document; an exception anywhere returns the empty list.
\<close>

fun kb_loop :: "int \<Rightarrow> (real \<times> json option) list \<Rightarrow> result_item list option" where
  "kb_loop i [] = Some []"
| "kb_loop i ((similarity_score, doc) # hits) =
     (if similarity_score < MIN_SIMILARITY_THRESHOLD then kb_loop (i + 1) hits
      else
        (case doc of
           None \<Rightarrow> None
         | Some c \<Rightarrow>
             (case kb_loop (i + 1) hits of
                None \<Rightarrow> None
              | Some results \<Rightarrow>
                  Some (\<lparr>item_content = c, item_score = Some similarity_score,
                         item_source = RESULT_SOURCE_LOCAL_KB, item_rank = Some (i + 1)\<rparr>
                        # results))))"

definition retrieve_from_local_kb :: "kb_outcome \<Rightarrow> result_item list" where
  "retrieve_from_local_kb kb =
    (case kb of
       KB_Unavailable \<Rightarrow> []
     | KB_Failed e \<Rightarrow> []
     | KB_Hits hits \<Rightarrow> (case kb_loop 0 hits of None \<Rightarrow> [] | Some results \<Rightarrow> results))"

definition HKGAI_DIRECT :: string where "HKGAI_DIRECT = ''hkgai_direct''"

text \<open>\<open>get_hkgai_answer\<close>: \<open>None\<close> is the empty dictionary it returns on failure.\<close>

definition get_hkgai_answer :: "world \<Rightarrow> result_item option" where
  "get_hkgai_answer w =
    (case chat (w_llm_direct w) of
       Inl e \<Rightarrow> None
     | Inr hkgai_response \<Rightarrow>
         if dict_has hkgai_response ''content''
            \<and> truthy (dict_get hkgai_response ''content'' JNull)
         then Some \<lparr>item_content = dict_get hkgai_response ''content'' JNull,
                    item_score = Some 1, item_source = HKGAI_DIRECT, item_rank = Some 0\<rparr>
         else None)"

definition retrieve_from_web :: "pydict list \<Rightarrow> result_item list" where
  "retrieve_from_web results =
     map (\<lambda>result. \<lparr>item_content = dict_get result ''snippet'' (JStr []),
                     item_score = Some DEFAULT_SCORE_WEB_RESULTS,
                     item_source = RESULT_SOURCE_WEB, item_rank = None\<rparr>) results"

definition call_domain_api :: "world \<Rightarrow> string \<Rightarrow> exn + pydict" where
  "call_domain_api w domain =
     (if domain = DOMAIN_FINANCE \<or> domain = DOMAIN_WEATHER \<or> domain = DOMAIN_TRANSPORTATION
      then w_integration w domain
      else Inr [(''error'', JStr (''No API handler for domain: '' @ domain)),
                (''domain'', JStr domain)])"

text \<open>
  \<open>retrieve_information\<close>, with the list of the collaborator calls it makes, in order.
  The local variable \<open>kb_results\<close> is bound only under the first \<open>if\<close>: \<open>None\<close> is the
  unbound variable, and reading it raises \<open>UnboundLocalError\<close> (the text is CPython's).
\<close>

datatype call = KbSearch | DirectAnswer | WebSearch | DomainApi | WebFallback

definition KB_RESULTS_UNBOUND :: exn where
  "KB_RESULTS_UNBOUND =
     UnboundLocalError (''cannot access local variable '' @ [CHR 0x27] @ ''kb_results''
        @ [CHR 0x27] @ '' where it is not associated with a value'')"

text \<open>Lines 1009 to 1023: the local knowledge base and the direct answer.\<close>

definition kb_stage :: "world \<Rightarrow> string list \<Rightarrow> (exn + result_item list) \<times> call list" where
  "kb_stage w source_list =
    (let kb_results =
           (if SOURCE_LOCAL_KB \<in> set source_list then Some (retrieve_from_local_kb (w_kb w))
            else None);
         calls = (if SOURCE_LOCAL_KB \<in> set source_list then [KbSearch] else [])
     in if SOURCE_WEB_SEARCH \<notin> set source_list
        then
          (case get_hkgai_answer w of
             Some hkgai_result \<Rightarrow>
               (case kb_results of
                  None \<Rightarrow> (Inl KB_RESULTS_UNBOUND, calls @ [DirectAnswer])
                | Some kb \<Rightarrow> (Inr (hkgai_result # kb), calls @ [DirectAnswer]))
           | None \<Rightarrow>
               (case kb_results of
                  None \<Rightarrow> (Inl KB_RESULTS_UNBOUND, calls @ [DirectAnswer])
                | Some kb \<Rightarrow> (Inr kb, calls @ [DirectAnswer])))
        else
          (case kb_results of
             None \<Rightarrow> (Inl KB_RESULTS_UNBOUND, calls)
           | Some kb \<Rightarrow> (Inr kb, calls)))"

text \<open>
  The guard \<open>SOURCE_DOMAIN_API in source_list and domain_handler\<close>: the handler the
  domain API is called with, if it is called.
\<close>

definition active_handler :: "string list \<Rightarrow> string option \<Rightarrow> string option" where
  "active_handler source_list handler =
     (if SOURCE_DOMAIN_API \<in> set source_list
      then (case handler of None \<Rightarrow> None | Some d \<Rightarrow> if d = [] then None else Some d)
      else None)"

definition retrieve_information ::
    "world \<Rightarrow> string \<Rightarrow> pydict \<Rightarrow> source_sel \<Rightarrow> (exn + retrieval) \<times> call list" where
  "retrieve_information w query understanding sel =
    (let source_list = sources sel
     in case kb_stage w source_list of
          (Inl e, calls) \<Rightarrow> (Inl e, calls)
        | (Inr kb_results, calls) \<Rightarrow>
            (let web = (if SOURCE_WEB_SEARCH \<in> set source_list
                        then retrieve_from_web (w_serpapi w) else []);
                 calls1 = (if SOURCE_WEB_SEARCH \<in> set source_list
                           then calls @ [WebSearch] else calls)
             in case active_handler source_list (domain_handler sel) of
                  None \<Rightarrow>
                    (Inr \<lparr>local_kb_results = kb_results, web_results = web,
                          domain_api_results = []\<rparr>, calls1)
                | Some handler \<Rightarrow>
                    (case call_domain_api w handler of
                       Inl e \<Rightarrow> (Inl e, calls1 @ [DomainApi])
                     | Inr api_result \<Rightarrow>
                         if dict_has api_result ''error''
                            \<and> SOURCE_WEB_SEARCH \<notin> set source_list
                         then (Inr \<lparr>local_kb_results = kb_results,
                                     web_results = retrieve_from_web (w_serpapi_fallback w),
                                     domain_api_results = api_result\<rparr>,
                               calls1 @ [DomainApi, WebFallback])
                         else (Inr \<lparr>local_kb_results = kb_results, web_results = web,
                                     domain_api_results = api_result\<rparr>,
                               calls1 @ [DomainApi]))))"

section \<open>Reranking (app/controller/reranking.py)\<close>

definition ML_AVAILABLE :: bool where "ML_AVAILABLE = True"
definition BM25_WEIGHT_ORIGINAL :: real where "BM25_WEIGHT_ORIGINAL = 0.7"
definition BM25_WEIGHT_BM25 :: real where "BM25_WEIGHT_BM25 = 0.3"

text \<open>
  An entry of the flattened list: the dictionary with the keys \<open>content\<close>, \<open>source\<close>
  and \<open>score\<close> that \<open>rerank_results\<close> builds, and the key \<open>bm25_score\<close> that the
  blending adds.
\<close>

record ranked =
  content :: json
  source :: string
  score :: real
  bm25_score :: "real option"

definition flatten :: "retrieval \<Rightarrow> ranked list" where
  "flatten results =
     map (\<lambda>kb_result.
            \<lparr>content = item_content kb_result, source = RESULT_SOURCE_LOCAL_KB,
             score = (case item_score kb_result of None \<Rightarrow> DEFAULT_SCORE_LOCAL_KB | Some x \<Rightarrow> x),
             bm25_score = None\<rparr>) (local_kb_results results)
     @ map (\<lambda>web_result.
            \<lparr>content = item_content web_result, source = RESULT_SOURCE_WEB,
             score = (case item_score web_result of None \<Rightarrow> DEFAULT_SCORE_WEB | Some x \<Rightarrow> x),
             bm25_score = None\<rparr>) (web_results results)
     @ (if domain_api_results results \<noteq> []
        then [\<lparr>content = JObj (domain_api_results results), source = RESULT_SOURCE_DOMAIN_API,
               score = DEFAULT_SCORE_DOMAIN_API, bm25_score = None\<rparr>]
        else [])"

text \<open>\<open>max\<close> of a non-empty list of scores.\<close>

fun py_max :: "real list \<Rightarrow> real" where
  "py_max [] = 0"
| "py_max (x # xs) = fold max xs x"

definition normalize_scores :: "real list \<Rightarrow> real list" where
  "normalize_scores bm25_scores =
     (let max_score = (if py_max bm25_scores > 0 then py_max bm25_scores else 1)
      in map (\<lambda>score. score / max_score) bm25_scores)"

text \<open>
  The blending loop updates the entries in place, in order. \<open>normalized_scores[i]\<close>
  raises \<open>IndexError\<close> past the end of the scores; the \<open>except\<close> clause then leaves the
  entries already updated as they are and the rest unchanged.
\<close>

fun blend :: "real list \<Rightarrow> ranked list \<Rightarrow> ranked list" where
  "blend normalized_scores [] = []"
| "blend [] (result # results) = result # results"
| "blend (bm25 # normalized_scores) (result # results) =
     result\<lparr>score := BM25_WEIGHT_ORIGINAL * score result + BM25_WEIGHT_BM25 * bm25,
            bm25_score := Some bm25\<rparr>
     # blend normalized_scores results"

definition apply_bm25_reranking :: "world \<Rightarrow> json \<Rightarrow> ranked list \<Rightarrow> ranked list" where
  "apply_bm25_reranking w query results =
    (if \<not> ML_AVAILABLE then results
     else
       (case w_bm25 w query (map content results) of
          Inl e \<Rightarrow> results
        | Inr bm25_scores \<Rightarrow>
            if bm25_scores = [] then results
            else blend (normalize_scores bm25_scores) results))"

text \<open>
  \<open>list.sort(key=score, reverse=True)\<close> is stable: entries of equal score keep their
  order, as \<open>sort_key\<close> on the negated score does.
\<close>

definition rerank_results :: "world \<Rightarrow> retrieval \<Rightarrow> pydict \<Rightarrow> ranked list" where
  "rerank_results w results understanding =
    (let all_results = flatten results;
         all_results1 =
           (if ML_AVAILABLE \<and> length all_results > 1
            then apply_bm25_reranking w (dict_get understanding ''query'' (JStr [])) all_results
            else all_results)
     in sort_key (\<lambda>x. - score x) all_results1)"

section \<open>Response generation (app/controller/response\_generation.py)\<close>

definition LOG_RESPONSE_ERROR :: string where
  "LOG_RESPONSE_ERROR = ''I apologize, but I encountered an error generating a response.''"
definition LOG_RESPONSE_FALLBACK :: string where
  "LOG_RESPONSE_FALLBACK = ''I couldn'' @ [CHR 0x27] @ ''t generate a response at this time.''"

text \<open>
  The context summary and the two prompts are built from JSON values and strings only
  and are sent to the model; the reply is \<open>w_llm_synth\<close>. The call of \<open>chat\<close> stands
  in no \<open>try\<close> block. The value returned is a Python value: the static string, or
  whatever the reply holds under \<open>content\<close>.
\<close>

definition generate_response :: "world \<Rightarrow> string \<Rightarrow> pydict \<Rightarrow> ranked list \<Rightarrow> exn + json" where
  "generate_response w query understanding context =
    (case chat (w_llm_synth w) of
       Inl e \<Rightarrow> Inl e
     | Inr result \<Rightarrow>
         if dict_has result ''error'' then Inr (JStr LOG_RESPONSE_ERROR)
         else Inr (dict_get result ''content'' (JStr LOG_RESPONSE_FALLBACK)))"

section \<open>The pipeline (app/controller/pipeline.py)\<close>

definition ERROR_PIPELINE_PROCESSING :: string where
  "ERROR_PIPELINE_PROCESSING = ''I apologize, but I encountered an error processing your query''"

text \<open>The body of the \<open>try\<close> block, then the function with its \<open>except Exception\<close>.\<close>

definition pipeline_body :: "world \<Rightarrow> string \<Rightarrow> exn + json" where
  "pipeline_body w query =
    (case query_understanding w query of
       Inl e \<Rightarrow> Inl e
     | Inr u \<Rightarrow>
         (let understanding = dict_set u ''query'' (JStr query);
              sel = source_selection understanding
          in case fst (retrieve_information w query understanding sel) of
               Inl e \<Rightarrow> Inl e
             | Inr results \<Rightarrow>
                 (let ranked_results = rerank_results w results understanding
                  in generate_response w query understanding ranked_results)))"

definition run_search_pipeline :: "world \<Rightarrow> string \<Rightarrow> json" where
  "run_search_pipeline w query =
    (case pipeline_body w query of
       Inl e \<Rightarrow> JStr (ERROR_PIPELINE_PROCESSING @ '': '' @ str_of e)
     | Inr response \<Rightarrow> response)"

section \<open>Example collaborators\<close>

text \<open>
  Concrete worlds for the examples below. \<open>completion\<close> is the body of a chat
  completion that carries one message; \<open>offline_world\<close> is a process with no network
  and no index; \<open>entities_world\<close> is a model that answers the classification prompt
  with the JSON text \<open>entities_reply_text\<close>, which \<open>json.loads\<close> decodes to
  \<open>entities_reply_json\<close>.
\<close>

definition quoted :: "string \<Rightarrow> string" where
  "quoted s = CHR 0x22 # s @ [CHR 0x22]"

definition completion :: "string \<Rightarrow> json" where
  "completion text =
     JObj [(''choices'',
            JList [JObj [(''message'',
                          JObj [(''role'', JStr ''assistant''), (''content'', JStr text)])]])]"

definition offline_world :: world where
  "offline_world =
     \<lparr>w_user_context = JObj [(''current_time'', JStr ''2025-01-01 12:00:00''),
                              (''location'', JStr ''Hong Kong'')],
      w_loads = (\<lambda>s. None),
      w_llm_classify = RequestFailed ''connection refused'',
      w_llm_direct = RequestFailed ''connection refused'',
      w_llm_synth = RequestFailed ''connection refused'',
      w_kb = KB_Unavailable,
      w_serpapi = [],
      w_serpapi_fallback = [],
      w_integration = (\<lambda>domain. Inr [(''error'', JStr ''Missing API key'')]),
      w_bm25 = (\<lambda>query contents. Inl (RuntimeError ''division by zero''))\<rparr>"

definition entities_reply_text :: string where
  "entities_reply_text =
     ''{'' @ quoted ''intent'' @ '': '' @ quoted ''factual'' @ '', ''
       @ quoted ''domain'' @ '': '' @ quoted ''general'' @ '', ''
       @ quoted ''entities'' @ '': {'' @ quoted ''locations'' @ '': '' @ quoted ''Hong Kong''
       @ '', '' @ quoted ''people'' @ '': []}}''"

definition entities_reply_json :: json where
  "entities_reply_json =
     JObj [(''intent'', JStr ''factual''), (''domain'', JStr ''general''),
           (''entities'', JObj [(''locations'', JStr ''Hong Kong''), (''people'', JList [])])]"

definition entities_world :: world where
  "entities_world =
     offline_world
       \<lparr>w_loads := (\<lambda>s. if s = entities_reply_text then Some entities_reply_json else None),
        w_llm_classify := Body (completion entities_reply_text)\<rparr>"

text \<open>Two web results for the query \<open>hong\<close>, as \<open>retrieve_from_web\<close> builds them.\<close>

definition two_web_results :: retrieval where
  "two_web_results =
     \<lparr>local_kb_results = [],
      web_results =
        [\<lparr>item_content = JStr ''Hong Kong weather'', item_score = Some 0.8,
          item_source = ''web'', item_rank = None\<rparr>,
         \<lparr>item_content = JStr ''Hong Kong news'', item_score = Some 0.8,
          item_source = ''web'', item_rank = None\<rparr>],
      domain_api_results = []\<rparr>"

text \<open>
  Three web results of three words each, for the query \<open>weather\<close>. Each word
  stands in one of the three texts, so BM25 gives it the weight \<open>ln (5 / 3)\<close>; the first
  text holds the query term once and scores \<open>ln (5 / 3)\<close>, the two others score 0.
\<close>

definition three_web_results :: retrieval where
  "three_web_results =
     \<lparr>local_kb_results = [],
      web_results =
        [\<lparr>item_content = JStr ''Hong Kong weather'', item_score = Some 0.8,
          item_source = ''web'', item_rank = None\<rparr>,
         \<lparr>item_content = JStr ''Stock market news'', item_score = Some 0.8,
          item_source = ''web'', item_rank = None\<rparr>,
         \<lparr>item_content = JStr ''Bus route map'', item_score = Some 0.8,
          item_source = ''web'', item_rank = None\<rparr>],
      domain_api_results = []\<rparr>"

definition weather_bm25_world :: world where
  "weather_bm25_world = offline_world\<lparr>w_bm25 := \<lambda>query contents. Inr [ln (5 / 3), 0, 0]\<rparr>"

section \<open>Dictionaries\<close>

lemma map_of_dict_set: "map_of (dict_set d k v) = (map_of d)(k \<mapsto> v)"
  by (induction d k v rule: dict_set.induct) auto

lemma dict_has_dict_set: "dict_has (dict_set d k v) k' = (k' = k \<or> dict_has d k')"
  by (simp add: dict_has_def map_of_dict_set)

lemma dict_get_dict_set:
  "dict_get (dict_set d k v) k' dflt = (if k' = k then v else dict_get d k' dflt)"
  by (simp add: dict_get_def map_of_dict_set)

section \<open>Properties of source selection\<close>

lemma ensure_priority_noop: "set srcs \<subseteq> set prio \<Longrightarrow> ensure_priority srcs prio = prio"
  unfolding ensure_priority_def by (induction srcs) auto

lemma source_selection_has_local_kb: "SOURCE_LOCAL_KB \<in> set (sources (source_selection u))"
  by (simp add: source_selection_def Let_def)

text \<open>
  C2: for every understanding dictionary (any value, or none, under the keys intent,
  domain and needs\_web) the priority list of the selection is a permutation of its
  sources list, and neither list has a duplicate.
\<close>

theorem source_selection_priority_perm:
  "mset (priority (source_selection u)) = mset (sources (source_selection u))
   \<and> distinct (priority (source_selection u))
   \<and> distinct (sources (source_selection u))"
  by (simp add: source_selection_def Let_def ensure_priority_noop const_defs)

theorem source_selection_priority_perm_witness:
  "priority (source_selection
      [(''intent'', JStr ''factual''), (''domain'', JStr ''weather''), (''needs_web'', JBool True)])
     = [''domain_api'', ''web_search'', ''local_kb'']
   \<and> mset [''domain_api'', ''web_search'', ''local_kb'']
     = mset (sources (source_selection
      [(''intent'', JStr ''factual''), (''domain'', JStr ''weather''), (''needs_web'', JBool True)]))"
  using source_selection_priority_perm
    [of "[(''intent'', JStr ''factual''), (''domain'', JStr ''weather''), (''needs_web'', JBool True)]"]
  by (simp add: source_selection_def Let_def ensure_priority_def dict_get_def const_defs)


section \<open>Properties of the classifier\<close>

lemma map_of_fill_step:
  "map_of (fill_step a d) k =
     (if dict_has d k then map_of d k else if k = a then Some (JList []) else None)"
  by (simp add: fill_step_def map_of_dict_set dict_has_def)

lemma dict_has_fill_step: "dict_has (fill_step a d) k = (dict_has d k \<or> k = a)"
  by (simp add: dict_has_def map_of_fill_step)

lemma map_of_fold_fill_step:
  "map_of (fold fill_step ks d) k =
     (if dict_has d k then map_of d k
      else if k \<in> set ks then Some (JList []) else None)"
proof (induction ks arbitrary: d)
  case Nil
  then show ?case by (simp add: dict_has_def)
next
  case (Cons a ks)
  have "map_of (fold fill_step (a # ks) d) k = map_of (fold fill_step ks (fill_step a d)) k"
    by simp
  also have "\<dots> = (if dict_has (fill_step a d) k then map_of (fill_step a d) k
      else if k \<in> set ks then Some (JList []) else None)"
    by (rule Cons.IH)
  also have "\<dots> = (if dict_has d k then map_of d k
      else if k \<in> set (a # ks) then Some (JList []) else None)"
    by (simp add: dict_has_fill_step map_of_fill_step)
  finally show ?case .
qed

lemma map_of_fill_entity_keys:
  "map_of (fill_entity_keys d) k =
     (if dict_has d k then map_of d k
      else if k \<in> set ENTITY_KEYS then Some (JList []) else None)"
  unfolding fill_entity_keys_def by (rule map_of_fold_fill_step)

lemma fill_entity_keys_has: "k \<in> set ENTITY_KEYS \<Longrightarrow> dict_has (fill_entity_keys d) k"
  by (simp add: dict_has_def map_of_fill_entity_keys)

lemma fill_create_empty: "fill_entity_keys create_empty_entities = create_empty_entities"
  by (simp add: fill_entity_keys_def fill_step_def ENTITY_KEYS_def create_empty_entities_def
      dict_has_def entity_key_defs)

lemma normalize_list:
  "normalize_entities (JList xs) =
     [(ENTITY_KEY_GENERAL, JList xs), (ENTITY_KEY_LOCATIONS, JList []),
      (ENTITY_KEY_ORGANIZATIONS, JList []), (ENTITY_KEY_STOCK_SYMBOLS, JList []),
      (ENTITY_KEY_DATES, JList []), (ENTITY_KEY_PRODUCTS, JList [])]"
  by (simp add: fill_entity_keys_def fill_step_def ENTITY_KEYS_def dict_has_def entity_key_defs)

lemma validate_non_dict_None: "validate_non_dict v = Inr r \<Longrightarrow> r = None"
  by (cases v) (simp_all split: if_splits)

lemma normalize_other:
  assumes "\<forall>d. v \<noteq> JObj d" and "\<forall>xs. v \<noteq> JList xs"
  shows "normalize_entities v =
     [(ENTITY_KEY_GENERAL, JList []), (ENTITY_KEY_LOCATIONS, JList []),
      (ENTITY_KEY_ORGANIZATIONS, JList []), (ENTITY_KEY_STOCK_SYMBOLS, JList []),
      (ENTITY_KEY_DATES, JList []), (ENTITY_KEY_PRODUCTS, JList [])]"
proof -
  have e: "fill_entity_keys [(ENTITY_KEY_GENERAL, JList [])] =
     [(ENTITY_KEY_GENERAL, JList []), (ENTITY_KEY_LOCATIONS, JList []),
      (ENTITY_KEY_ORGANIZATIONS, JList []), (ENTITY_KEY_STOCK_SYMBOLS, JList []),
      (ENTITY_KEY_DATES, JList []), (ENTITY_KEY_PRODUCTS, JList [])]"
    by (simp add: fill_entity_keys_def fill_step_def ENTITY_KEYS_def dict_has_def entity_key_defs)
  show ?thesis
  proof (cases v)
    case (JObj d)
    with assms show ?thesis by blast
  next
    case (JList xs)
    with assms show ?thesis by blast
  qed (simp_all only: normalize_entities.simps e)
qed

lemma validate_result_conds:
  assumes "validate_result r = Some r'"
  shows "dict_has r ''intent''" and "dict_has r ''domain''"
    and "dict_get r ''intent'' JNull \<in> JStr ` set VALID_INTENTS"
    and "dict_get r ''domain'' JNull \<in> JStr ` set VALID_DOMAINS"
  using assms unfolding validate_result_def Let_def by (simp_all split: if_splits)

lemma validate_result_keeps:
  assumes "validate_result r = Some r'"
  shows "map_of r' ''intent'' = map_of r ''intent''"
    and "map_of r' ''domain'' = map_of r ''domain''"
  using assms unfolding validate_result_def Let_def
  by (auto simp: map_of_dict_set split: if_splits)

lemma validate_result_entities:
  assumes "validate_result r = Some r'"
  shows "map_of r' ''entities'' =
       Some (JObj (normalize_entities (dict_get r ''entities'' (JObj create_empty_entities))))"
proof -
  define r1 where "r1 = (if \<not> dict_has r ''needs_web''
               then dict_set r ''needs_web''
                      (JBool (dict_get r ''domain'' JNull
                                \<in> JStr ` set [DOMAIN_WEATHER, DOMAIN_TRANSPORTATION, DOMAIN_FINANCE]))
               else r)"
  define r2 where "r2 = (if \<not> dict_has r1 ''entities''
               then dict_set r1 ''entities'' (JObj create_empty_entities) else r1)"
  have r': "r' = dict_set r2 ''entities'' (JObj (normalize_entities (dict_get r2 ''entities'' (JObj []))))"
    using assms unfolding validate_result_def Let_def r1_def r2_def
    by (simp split: if_splits)
  have m1: "map_of r1 ''entities'' = map_of r ''entities''"
    unfolding r1_def by (simp add: map_of_dict_set)
  have g2: "dict_get r2 ''entities'' (JObj []) = dict_get r ''entities'' (JObj create_empty_entities)"
    unfolding r2_def dict_get_def dict_has_def using m1
    by (cases "map_of r ''entities''") (simp_all add: map_of_dict_set)
  show ?thesis unfolding r' g2 by (simp add: map_of_dict_set)
qed

lemmas strip_defs = strip_def lstrip_def rstrip_def UNICODE_SPACES_def is_space_def

lemma strip_Nil: "strip [] = []"
  by (simp add: strip_def lstrip_def rstrip_def)

lemma classify_with_llm_RequestFailed:
  "w_llm_classify w = RequestFailed e \<Longrightarrow> classify_with_llm w q = Inr None"
  by (simp add: classify_with_llm_def classify_reply_def chat_def dict_has_def)

lemma classify_with_llm_BodyNotJson:
  "w_llm_classify w = BodyNotJson e \<Longrightarrow> classify_with_llm w q = Inl CONTENT_UNBOUND"
  by (simp add: classify_with_llm_def chat_def)

lemma classify_reply_Body:
  assumes "chat (Body d) = Inr response"
  shows "classify_reply w response =
    (let content = strip (extract_content d) in
     if content = [] then Inr None
     else (case w_loads w (unfence content) of
             None \<Rightarrow> Inl (JSONDecodeError (unfence content))
           | Some (JObj result) \<Rightarrow> Inr (validate_result result)
           | Some v \<Rightarrow> validate_non_dict v))"
proof (cases "extract_content d = []")
  case True
  then have "response = [(''content'', JStr []), (''warning'', JStr ''Empty content returned''),
                    (''raw'', d)]"
    using assms by (simp add: chat_def)
  then show ?thesis using True
    by (simp add: classify_reply_def dict_has_def dict_get_def strip_Nil)
next
  case False
  then have "response = [(''content'', JStr (extract_content d)), (''raw'', d)]"
    using assms by (simp add: chat_def)
  then show ?thesis
    by (simp add: classify_reply_def dict_has_def dict_get_def Let_def)
qed

lemma chat_Body_returns: "\<exists>response. chat (Body d) = Inr response"
  by (simp add: chat_def Let_def)

lemma classify_with_llm_Body:
  assumes "w_llm_classify w = Body d"
  shows "classify_with_llm w q =
    (if strip (extract_content d) = [] then Inr None
     else (case w_loads w (unfence (strip (extract_content d))) of
             None \<Rightarrow> Inr None
           | Some (JObj result) \<Rightarrow> Inr (validate_result result)
           | Some v \<Rightarrow> Inr None))"
proof -
  obtain response where r: "chat (Body d) = Inr response"
    using chat_Body_returns by blast
  have c: "classify_with_llm w q =
      (case classify_reply w response of Inl e \<Rightarrow> Inr None | Inr r \<Rightarrow> Inr r)"
    by (simp add: classify_with_llm_def assms r)
  show ?thesis
  proof (cases "w_loads w (unfence (strip (extract_content d)))")
    case None
    then show ?thesis
      by (simp add: c classify_reply_Body [OF r] Let_def)
  next
    case (Some v)
    have nd: "(case validate_non_dict v of Inl e \<Rightarrow> Inr None | Inr r \<Rightarrow> Inr r) = Inr None"
      using validate_non_dict_None [of v] by (cases "validate_non_dict v") auto
    show ?thesis using Some nd
      by (cases v) (simp_all add: c classify_reply_Body [OF r] Let_def)
  qed
qed

lemma classify_with_llm_Some:
  assumes "classify_with_llm w q = Inr (Some r')"
  shows "\<exists>d result. w_llm_classify w = Body d
           \<and> w_loads w (unfence (strip (extract_content d))) = Some (JObj result)
           \<and> validate_result result = Some r'"
proof (cases "w_llm_classify w")
  case (RequestFailed e)
  then show ?thesis using assms
    by (simp add: classify_with_llm_RequestFailed)
next
  case (BodyNotJson e)
  then show ?thesis using assms
    by (simp add: classify_with_llm_BodyNotJson)
next
  case (Body d)
  show ?thesis
  proof (cases "w_loads w (unfence (strip (extract_content d)))")
    case None
    then show ?thesis using assms Body
      by (simp add: classify_with_llm_Body split: if_splits)
  next
    case (Some v)
    then show ?thesis using assms Body
      by (cases v) (simp_all add: classify_with_llm_Body split: if_splits)
  qed
qed

lemma classify_with_llm_raises:
  assumes "classify_with_llm w q = Inl e"
  shows "e = CONTENT_UNBOUND \<and> (\<exists>m. w_llm_classify w = BodyNotJson m)"
proof (cases "w_llm_classify w")
  case (RequestFailed m)
  then show ?thesis using assms by (simp add: classify_with_llm_RequestFailed)
next
  case (BodyNotJson m)
  then show ?thesis using assms by (simp add: classify_with_llm_BodyNotJson)
next
  case (Body d)
  then show ?thesis using assms
    by (simp add: classify_with_llm_Body split: if_splits option.splits json.splits)
qed

lemma query_understanding_None:
  "classify_with_llm w q = Inr None \<Longrightarrow>
     query_understanding w q = Inr (default_understanding (w_user_context w))"
  by (simp add: query_understanding_def)

lemma extract_completion: "extract_content (completion entities_reply_text) = entities_reply_text"
  by (simp add: extract_content_def completion_def dict_get_def entities_reply_text_def quoted_def
      strip_defs)

lemma strip_entities_reply_text: "strip entities_reply_text = entities_reply_text"
  by (simp add: entities_reply_text_def quoted_def strip_defs)

lemma unfence_entities_reply_text: "unfence entities_reply_text = entities_reply_text"
  by (simp add: unfence_def startswith_def MARKDOWN_JSON_START_def MARKDOWN_CODE_START_def
      entities_reply_text_def quoted_def)

lemma query_understanding_entities_world:
  "query_understanding entities_world q =
     Inr [(''intent'', JStr ''factual''), (''domain'', JStr ''general''),
          (''needs_web'', JBool False),
          (''entities'', JObj [(''locations'', JStr ''Hong Kong''), (''people'', JList []),
              (''organizations'', JList []), (''stock_symbols'', JList []),
              (''dates'', JList []), (''products'', JList []), (''general'', JList [])]),
          (''user_context'', w_user_context offline_world)]"
proof -
  have c: "w_llm_classify entities_world = Body (completion entities_reply_text)"
    by (simp add: entities_world_def)
  have l: "w_loads entities_world entities_reply_text = Some entities_reply_json"
    by (simp add: entities_world_def)
  have n: "entities_reply_text \<noteq> []"
    by (simp add: entities_reply_text_def)
  have b: "classify_with_llm entities_world q = Inr (validate_result
      [(''intent'', JStr ''factual''), (''domain'', JStr ''general''),
           (''entities'', JObj [(''locations'', JStr ''Hong Kong''), (''people'', JList [])])])"
    by (simp add: classify_with_llm_Body [OF c] extract_completion strip_entities_reply_text
        unfence_entities_reply_text l n entities_reply_json_def)
  have v: "validate_result
      [(''intent'', JStr ''factual''), (''domain'', JStr ''general''),
           (''entities'', JObj [(''locations'', JStr ''Hong Kong''), (''people'', JList [])])]
     = Some [(''intent'', JStr ''factual''), (''domain'', JStr ''general''),
          (''entities'', JObj [(''locations'', JStr ''Hong Kong''), (''people'', JList []),
              (''organizations'', JList []), (''stock_symbols'', JList []),
              (''dates'', JList []), (''products'', JList []), (''general'', JList [])]),
          (''needs_web'', JBool False)]"
    by (simp add: validate_result_def dict_has_def dict_get_def Let_def const_defs
        fill_entity_keys_def fill_step_def ENTITY_KEYS_def entity_key_defs)
  have u: "w_user_context entities_world = w_user_context offline_world"
    by (simp add: entities_world_def)
  show ?thesis
    by (simp add: query_understanding_def b v dict_get_def u)
qed


lemma default_entities:
  "map_of (default_understanding c) ''entities'' = Some (JObj create_empty_entities)"
  by (simp add: default_understanding_def)

lemma create_empty_has: "k \<in> set ENTITY_KEYS \<Longrightarrow> dict_has create_empty_entities k"
  using fill_entity_keys_has [of k create_empty_entities] by (simp add: fill_create_empty)

lemma normalize_entities_has: "k \<in> set ENTITY_KEYS \<Longrightarrow> dict_has (normalize_entities v) k"
  by (cases v) (simp_all add: fill_entity_keys_has)

lemma query_understanding_Some:
  assumes "classify_with_llm w q = Inr (Some r')" and "validate_result result = Some r'"
  shows "query_understanding w q = Inr (default_understanding (w_user_context w)) \<or>
    (\<exists>i d. query_understanding w q =
       Inr [(''intent'', i), (''domain'', d),
            (''needs_web'', dict_get r' ''needs_web'' (JBool False)),
            (''entities'', JObj (normalize_entities
                (dict_get result ''entities'' (JObj create_empty_entities)))),
            (''user_context'', w_user_context w)])"
proof -
  obtain i where i: "map_of r' ''intent'' = Some i"
    using validate_result_keeps(1) [OF assms(2)] validate_result_conds(1) [OF assms(2)]
    by (auto simp: dict_has_def)
  obtain d where d: "map_of r' ''domain'' = Some d"
    using validate_result_keeps(2) [OF assms(2)] validate_result_conds(2) [OF assms(2)]
    by (auto simp: dict_has_def)
  have e: "dict_get r' ''entities'' (JObj []) = JObj (normalize_entities
                (dict_get result ''entities'' (JObj create_empty_entities)))"
    using validate_result_entities [OF assms(2)] by (simp add: dict_get_def)
  have ne: "r' \<noteq> []"
    using i by auto
  have "query_understanding w q =
       Inr [(''intent'', i), (''domain'', d),
            (''needs_web'', dict_get r' ''needs_web'' (JBool False)),
            (''entities'', JObj (normalize_entities
                (dict_get result ''entities'' (JObj create_empty_entities)))),
            (''user_context'', w_user_context w)]"
    by (simp add: query_understanding_def assms(1) i d e ne Let_def)
  then show ?thesis by blast
qed

lemma query_understanding_raises:
  assumes "query_understanding w q = Inl e"
  shows "e = CONTENT_UNBOUND \<and> (\<exists>m. w_llm_classify w = BodyNotJson m)"
proof (cases "classify_with_llm w q")
  case (Inl e')
  then have "e' = e" using assms by (simp add: query_understanding_def)
  then show ?thesis using classify_with_llm_raises Inl by blast
next
  case (Inr r)
  show ?thesis
  proof (cases r)
    case None
    then show ?thesis using assms Inr by (simp add: query_understanding_None)
  next
    case (Some r')
    then have c: "classify_with_llm w q = Inr (Some r')"
      using Inr by simp
    then obtain result where "validate_result result = Some r'"
      using classify_with_llm_Some by blast
    from query_understanding_Some [OF c this] assms show ?thesis by auto
  qed
qed

text \<open>
  C4, as the code has it: the entities of every understanding the classifier produces
  are a dictionary that has each of the six fixed keys. They are the six empty lists of
  the fallback, or the normalised entities value of the accepted model reply, where
  normalising a dictionary keeps every key it has with its value (of any type, and
  also a key outside the six) and binds each missing fixed key to the empty list,
  normalising a list \<open>xs\<close> gives \<open>general: xs\<close> with the five other keys empty, and
  normalising any other value gives the six keys empty.
\<close>

theorem classifier_entities_shape:
  assumes "query_understanding w q = Inr u"
  shows "\<exists>e. map_of u ''entities'' = Some (JObj e)
          \<and> (\<forall>k\<in>set ENTITY_KEYS. dict_has e k)
          \<and> (e = create_empty_entities
             \<or> (\<exists>d result. w_llm_classify w = Body d
                  \<and> w_loads w (unfence (strip (extract_content d))) = Some (JObj result)
                  \<and> e = normalize_entities
                        (dict_get result ''entities'' (JObj create_empty_entities))))
          \<and> (\<forall>d k. map_of (normalize_entities (JObj d)) k =
                (if dict_has d k then map_of d k
                 else if k \<in> set ENTITY_KEYS then Some (JList []) else None))
          \<and> (\<forall>xs. normalize_entities (JList xs) =
                [(ENTITY_KEY_GENERAL, JList xs), (ENTITY_KEY_LOCATIONS, JList []),
                 (ENTITY_KEY_ORGANIZATIONS, JList []), (ENTITY_KEY_STOCK_SYMBOLS, JList []),
                 (ENTITY_KEY_DATES, JList []), (ENTITY_KEY_PRODUCTS, JList [])])
          \<and> (\<forall>v. (\<forall>d. v \<noteq> JObj d) \<and> (\<forall>xs. v \<noteq> JList xs) \<longrightarrow>
                normalize_entities v =
                [(ENTITY_KEY_GENERAL, JList []), (ENTITY_KEY_LOCATIONS, JList []),
                 (ENTITY_KEY_ORGANIZATIONS, JList []), (ENTITY_KEY_STOCK_SYMBOLS, JList []),
                 (ENTITY_KEY_DATES, JList []), (ENTITY_KEY_PRODUCTS, JList [])])"
proof -
  have shape: "\<exists>e. map_of u ''entities'' = Some (JObj e)
          \<and> (\<forall>k\<in>set ENTITY_KEYS. dict_has e k)
          \<and> (e = create_empty_entities
             \<or> (\<exists>d result. w_llm_classify w = Body d
                  \<and> w_loads w (unfence (strip (extract_content d))) = Some (JObj result)
                  \<and> e = normalize_entities
                        (dict_get result ''entities'' (JObj create_empty_entities))))"
  proof -
    consider (raises) e where "classify_with_llm w q = Inl e"
      | (none) "classify_with_llm w q = Inr None"
      | (some) r' where "classify_with_llm w q = Inr (Some r')"
      by (cases "classify_with_llm w q") (auto intro: option.exhaust)
    then show ?thesis
    proof cases
      case raises
      then show ?thesis using assms by (simp add: query_understanding_def)
    next
      case none
      then have "u = default_understanding (w_user_context w)"
        using assms by (simp add: query_understanding_None)
      then show ?thesis
        using default_entities create_empty_has by blast
    next
      case some
      then obtain d result where b: "w_llm_classify w = Body d"
        and l: "w_loads w (unfence (strip (extract_content d))) = Some (JObj result)"
        and v: "validate_result result = Some r'"
        using classify_with_llm_Some by blast
      from query_understanding_Some [OF some v] show ?thesis
      proof
        assume "query_understanding w q = Inr (default_understanding (w_user_context w))"
        then have "u = default_understanding (w_user_context w)"
          using assms by simp
        then show ?thesis
          using default_entities create_empty_has by blast
      next
        assume "\<exists>i d. query_understanding w q =
         Inr [(''intent'', i), (''domain'', d),
              (''needs_web'', dict_get r' ''needs_web'' (JBool False)),
              (''entities'', JObj (normalize_entities
                  (dict_get result ''entities'' (JObj create_empty_entities)))),
              (''user_context'', w_user_context w)]"
        then have m: "map_of u ''entities'' = Some (JObj (normalize_entities
                  (dict_get result ''entities'' (JObj create_empty_entities))))"
          using assms by auto
        show ?thesis
          using m b l normalize_entities_has by blast
      qed
    qed
  qed
  have obj: "\<forall>d k. map_of (normalize_entities (JObj d)) k =
                (if dict_has d k then map_of d k
                 else if k \<in> set ENTITY_KEYS then Some (JList []) else None)"
    by (simp only: normalize_entities.simps map_of_fill_entity_keys) simp
  show ?thesis
    using shape obj normalize_list normalize_other by blast
qed

theorem classifier_entities_shape_witness:
  "query_understanding entities_world ''How is the weather?'' =
     Inr [(''intent'', JStr ''factual''), (''domain'', JStr ''general''),
          (''needs_web'', JBool False),
          (''entities'', JObj [(''locations'', JStr ''Hong Kong''), (''people'', JList []),
              (''organizations'', JList []), (''stock_symbols'', JList []),
              (''dates'', JList []), (''products'', JList []), (''general'', JList [])]),
          (''user_context'', w_user_context offline_world)]
   \<and> (\<exists>e. map_of [(''intent'', JStr ''factual''), (''domain'', JStr ''general''),
          (''needs_web'', JBool False),
          (''entities'', JObj [(''locations'', JStr ''Hong Kong''), (''people'', JList []),
              (''organizations'', JList []), (''stock_symbols'', JList []),
              (''dates'', JList []), (''products'', JList []), (''general'', JList [])]),
          (''user_context'', w_user_context offline_world)] ''entities'' = Some (JObj e)
       \<and> dict_has e ''dates'' \<and> dict_has e ''people'')"
  using classifier_entities_shape [OF query_understanding_entities_world [of "''How is the weather?''"]]
    query_understanding_entities_world [of "''How is the weather?''"]
  by (simp add: dict_has_def)

text \<open>
  The claim as stated fails: for a model reply whose entities are
  \<open>{"locations": "Hong Kong", "people": []}\<close> the result keeps the key \<open>people\<close> and
  the string under \<open>locations\<close>.
\<close>

theorem classifier_entities_exact_counterexample:
  "\<not> (\<forall>w q u. query_understanding w q = Inr u \<longrightarrow>
        (\<exists>e. map_of u ''entities'' = Some (JObj e)
           \<and> set (map fst e) = set ENTITY_KEYS
           \<and> (\<forall>k\<in>set ENTITY_KEYS. \<exists>xs. map_of e k = Some (JList xs))))"
proof
  assume a: "\<forall>w q u. query_understanding w q = Inr u \<longrightarrow>
        (\<exists>e. map_of u ''entities'' = Some (JObj e)
           \<and> set (map fst e) = set ENTITY_KEYS
           \<and> (\<forall>k\<in>set ENTITY_KEYS. \<exists>xs. map_of e k = Some (JList xs)))"
  from a [rule_format, OF query_understanding_entities_world [of "[]"]]
  obtain e where e: "e = [(''locations'', JStr ''Hong Kong''), (''people'', JList []),
              (''organizations'', JList []), (''stock_symbols'', JList []),
              (''dates'', JList []), (''products'', JList []), (''general'', JList [])]"
    and s: "set (map fst e) = set ENTITY_KEYS"
    by auto
  have "''people'' \<in> set (map fst e)" by (simp add: e)
  then have "''people'' \<in> set ENTITY_KEYS" using s by simp
  then show False by (simp add: ENTITY_KEYS_def entity_key_defs)
qed


lemma validate_result_None:
  assumes "\<not> dict_has result ''intent'' \<or> \<not> dict_has result ''domain''
           \<or> dict_get result ''intent'' JNull \<notin> JStr ` set VALID_INTENTS
           \<or> dict_get result ''domain'' JNull \<notin> JStr ` set VALID_DOMAINS"
  shows "validate_result result = None"
  using assms unfolding validate_result_def by auto

text \<open>
  The failures that reach a handler with \<open>content\<close> bound, or no handler at all, give
  the default understanding: a network error reported by \<open>chat\<close>, an empty reply, a
  reply text that does not decode, a decoded dictionary that lacks \<open>intent\<close> or
  \<open>domain\<close> or holds a value outside the closed sets under one of them.
\<close>

lemma classification_fallback:
  assumes "(\<exists>e. w_llm_classify w = RequestFailed e)
     \<or> (\<exists>d. w_llm_classify w = Body d
          \<and> (strip (extract_content d) = []
             \<or> w_loads w (unfence (strip (extract_content d))) = None
             \<or> (\<exists>result. w_loads w (unfence (strip (extract_content d))) = Some (JObj result)
                  \<and> (\<not> dict_has result ''intent'' \<or> \<not> dict_has result ''domain''
                     \<or> dict_get result ''intent'' JNull \<notin> JStr ` set VALID_INTENTS
                     \<or> dict_get result ''domain'' JNull \<notin> JStr ` set VALID_DOMAINS))))"
  shows "query_understanding w q =
     Inr [(''intent'', JStr ''factual''), (''domain'', JStr ''general''),
          (''needs_web'', JBool True),
          (''entities'', JObj [(''locations'', JList []), (''organizations'', JList []),
                              (''stock_symbols'', JList []), (''dates'', JList []),
                              (''products'', JList []), (''general'', JList [])]),
          (''user_context'', w_user_context w)]"
proof -
  have "classify_with_llm w q = Inr None"
    using assms
  proof (elim disjE exE conjE)
    fix e assume "w_llm_classify w = RequestFailed e"
    then show ?thesis
      by (simp add: classify_with_llm_RequestFailed)
  next
    fix d assume "w_llm_classify w = Body d" "strip (extract_content d) = []"
    then show ?thesis by (simp add: classify_with_llm_Body)
  next
    fix d assume "w_llm_classify w = Body d"
      "w_loads w (unfence (strip (extract_content d))) = None"
    then show ?thesis by (simp add: classify_with_llm_Body)
  next
    fix d result assume "w_llm_classify w = Body d"
      "w_loads w (unfence (strip (extract_content d))) = Some (JObj result)"
      "\<not> dict_has result ''intent''"
    then show ?thesis by (simp add: classify_with_llm_Body validate_result_None)
  next
    fix d result assume "w_llm_classify w = Body d"
      "w_loads w (unfence (strip (extract_content d))) = Some (JObj result)"
      "\<not> dict_has result ''domain''"
    then show ?thesis by (simp add: classify_with_llm_Body validate_result_None)
  next
    fix d result assume "w_llm_classify w = Body d"
      "w_loads w (unfence (strip (extract_content d))) = Some (JObj result)"
      "dict_get result ''intent'' JNull \<notin> JStr ` set VALID_INTENTS"
    then show ?thesis by (simp add: classify_with_llm_Body validate_result_None)
  next
    fix d result assume "w_llm_classify w = Body d"
      "w_loads w (unfence (strip (extract_content d))) = Some (JObj result)"
      "dict_get result ''domain'' JNull \<notin> JStr ` set VALID_DOMAINS"
    then show ?thesis by (simp add: classify_with_llm_Body validate_result_None)
  qed
  then show ?thesis
    by (simp add: query_understanding_None default_understanding_def create_empty_entities_def
        const_defs entity_key_defs)
qed

lemma classification_fallback_offline:
  "query_understanding offline_world ''Will it rain tomorrow?'' =
     Inr [(''intent'', JStr ''factual''), (''domain'', JStr ''general''),
          (''needs_web'', JBool True),
          (''entities'', JObj [(''locations'', JList []), (''organizations'', JList []),
                              (''stock_symbols'', JList []), (''dates'', JList []),
                              (''products'', JList []), (''general'', JList [])]),
          (''user_context'', JObj [(''current_time'', JStr ''2025-01-01 12:00:00''),
                                  (''location'', JStr ''Hong Kong'')])]"
  using classification_fallback [of offline_world "''Will it rain tomorrow?''"]
  by (simp add: offline_world_def)

text \<open>
  C5 at a classification call answered with a body that is no JSON: \<open>chat\<close> raises
  \<open>JSONDecodeError\<close> before \<open>content\<close> is assigned, the handler of that exception reads
  \<open>content\<close>, and \<open>UnboundLocalError\<close> leaves \<open>classify_with_llm\<close> and
  \<open>query_understanding\<close>, which returns no understanding.
\<close>

theorem query_understanding_content_unbound:
  "classify_with_llm (w\<lparr>w_llm_classify := BodyNotJson e\<rparr>) query = Inl CONTENT_UNBOUND
   \<and> query_understanding (w\<lparr>w_llm_classify := BodyNotJson e\<rparr>) query = Inl CONTENT_UNBOUND"
  by (simp add: query_understanding_def classify_with_llm_BodyNotJson)

section \<open>Response generation and the pipeline\<close>

lemma chat_empty_choices:
  "chat (Body (JObj [(''choices'', JList [])])) =
     Inr [(''content'', JStr []), (''warning'', JStr ''Empty content returned''),
          (''raw'', JObj [(''choices'', JList [])])]"
  by (simp add: chat_def extract_content_def dict_get_def)

text \<open>
  C3 at the reply the client returns for a completion without content: the dictionary
  has the key \<open>content\<close> with the empty string, so the default of \<open>get\<close> is not used
  and \<open>generate_response\<close> returns the empty string, not the static fallback string.
  When the body of the HTTP reply is no JSON, \<open>chat\<close> raises and so does
  \<open>generate_response\<close>.
\<close>

theorem generate_response_empty_content:
  "generate_response (w\<lparr>w_llm_synth := Body (JObj [(''choices'', JList [])])\<rparr>) query
      understanding context = Inr (JStr [])
   \<and> JStr [] \<noteq> JStr LOG_RESPONSE_FALLBACK
   \<and> generate_response (w\<lparr>w_llm_synth := BodyNotJson e\<rparr>) query understanding context
       = Inl (JSONDecodeError e)"
  by (simp add: generate_response_def chat_empty_choices dict_has_def dict_get_def
      LOG_RESPONSE_FALLBACK_def) (simp add: chat_def)

lemma query_understanding_offline:
  "w_llm_classify w = RequestFailed e \<Longrightarrow>
   query_understanding w q = Inr (default_understanding (w_user_context w))"
  by (simp add: query_understanding_None classify_with_llm_RequestFailed)

lemma source_selection_default:
  "source_selection (dict_set (default_understanding c) ''query'' (JStr q)) =
     \<lparr>sources = [''web_search'', ''local_kb''], domain_handler = None,
      priority = [''web_search'', ''local_kb'']\<rparr>"
  by (simp add: source_selection_def default_understanding_def dict_get_def Let_def
      ensure_priority_def const_defs)

lemma retrieve_offline:
  assumes "w_kb w = KB_Unavailable" and "w_serpapi w = []"
  shows "retrieve_information w q u
     \<lparr>sources = [''web_search'', ''local_kb''], domain_handler = None,
      priority = [''web_search'', ''local_kb'']\<rparr>
     = (Inr \<lparr>local_kb_results = [], web_results = [], domain_api_results = []\<rparr>,
        [KbSearch, WebSearch])"
  by (simp add: retrieve_information_def kb_stage_def assms retrieve_from_local_kb_def
      retrieve_from_web_def active_handler_def const_defs Let_def)

lemma rerank_empty:
  "rerank_results w \<lparr>local_kb_results = [], web_results = [], domain_api_results = []\<rparr> u = []"
  by (simp add: rerank_results_def flatten_def Let_def)

text \<open>
  C1 at a query answered with no network but for the synthesis call, whose completion
  carries no content: the pipeline returns the empty string.
\<close>

theorem run_search_pipeline_empty_answer:
  "run_search_pipeline (offline_world\<lparr>w_llm_synth := Body (JObj [(''choices'', JList [])])\<rparr>)
      ''What time is sunset in Hong Kong today?'' = JStr []"
proof -
  let ?w = "offline_world\<lparr>w_llm_synth := Body (JObj [(''choices'', JList [])])\<rparr>"
  have c: "w_llm_classify ?w = RequestFailed ''connection refused''"
    and k: "w_kb ?w = KB_Unavailable" and s: "w_serpapi ?w = []"
    by (simp_all add: offline_world_def)
  have g: "generate_response ?w q u c = Inr (JStr [])" for q u c
    by (simp add: generate_response_def chat_empty_choices dict_has_def dict_get_def)
  show ?thesis
    unfolding run_search_pipeline_def pipeline_body_def
    by (simp only: query_understanding_offline [OF c] source_selection_default Let_def
        retrieve_offline [OF k s] rerank_empty g sum.case fst_conv)
qed


lemma chat_Inr_shape:
  assumes "chat h = Inr r"
  shows "dict_has r ''error'' \<or> (\<exists>c. map_of r ''content'' = Some (JStr c))"
  using assms by (cases h) (auto simp: chat_def dict_has_def Let_def split: if_splits)

lemma generate_response_string:
  assumes "generate_response w q u c = Inr v"
  shows "\<exists>s. v = JStr s"
proof (cases "chat (w_llm_synth w)")
  case (Inl e)
  then show ?thesis using assms by (simp add: generate_response_def)
next
  case (Inr r)
  from chat_Inr_shape [OF Inr] show ?thesis
  proof
    assume "dict_has r ''error''"
    then show ?thesis using assms Inr by (auto simp: generate_response_def)
  next
    assume "\<exists>c. map_of r ''content'' = Some (JStr c)"
    then show ?thesis using assms Inr
      by (auto simp: generate_response_def dict_get_def split: if_splits)
  qed
qed

lemma pipeline_body_string:
  assumes "pipeline_body w q = Inr v"
  shows "\<exists>s. v = JStr s"
  using assms generate_response_string
  unfolding pipeline_body_def Let_def
  by (auto split: sum.splits)

lemma run_search_pipeline_returns_string: "\<exists>s. run_search_pipeline w q = JStr s"
proof (cases "pipeline_body w q")
  case (Inl e)
  then show ?thesis by (simp add: run_search_pipeline_def)
next
  case (Inr v)
  then show ?thesis using pipeline_body_string [OF Inr] by (simp add: run_search_pipeline_def)
qed

lemma run_search_pipeline_error_text:
  "pipeline_body w q = Inl e \<Longrightarrow>
     run_search_pipeline w q = JStr (ERROR_PIPELINE_PROCESSING @ '': '' @ str_of e)"
  by (simp add: run_search_pipeline_def)

lemma generate_response_error:
  "w_llm_synth w = RequestFailed e \<Longrightarrow>
     generate_response w q u c = Inr (JStr LOG_RESPONSE_ERROR)"
  by (simp add: generate_response_def chat_def dict_has_def)


section \<open>Properties of retrieval\<close>

lemma kb_stage_unbound:
  assumes "SOURCE_LOCAL_KB \<notin> set source_list"
  shows "kb_stage w source_list =
     (Inl KB_RESULTS_UNBOUND,
      if SOURCE_WEB_SEARCH \<in> set source_list then [] else [DirectAnswer])"
  using assms by (simp add: kb_stage_def Let_def split: option.splits)

lemma kb_stage_bound:
  assumes "SOURCE_LOCAL_KB \<in> set source_list"
  shows "kb_stage w source_list =
     (if SOURCE_WEB_SEARCH \<in> set source_list
      then (Inr (retrieve_from_local_kb (w_kb w)), [KbSearch])
      else (Inr (case get_hkgai_answer w of
                   None \<Rightarrow> retrieve_from_local_kb (w_kb w)
                 | Some hkgai_result \<Rightarrow> hkgai_result # retrieve_from_local_kb (w_kb w)),
            [KbSearch, DirectAnswer]))"
  using assms by (simp add: kb_stage_def Let_def split: option.splits)

lemma call_domain_api_raises:
  "call_domain_api w h = Inl e \<Longrightarrow> w_integration w h = Inl e"
  by (simp add: call_domain_api_def split: if_splits)

lemma retrieve_information_unbound:
  assumes "SOURCE_LOCAL_KB \<notin> set (sources sel)"
  shows "retrieve_information w q u sel =
     (Inl KB_RESULTS_UNBOUND,
      if SOURCE_WEB_SEARCH \<in> set (sources sel) then [] else [DirectAnswer])"
  by (simp add: retrieve_information_def Let_def kb_stage_unbound [OF assms])

lemma retrieve_information_bound:
  assumes "SOURCE_LOCAL_KB \<in> set (sources sel)"
  shows "retrieve_information w q u sel =
    (let kb_results =
           (if SOURCE_WEB_SEARCH \<in> set (sources sel) then retrieve_from_local_kb (w_kb w)
            else (case get_hkgai_answer w of
                    None \<Rightarrow> retrieve_from_local_kb (w_kb w)
                  | Some hkgai_result \<Rightarrow> hkgai_result # retrieve_from_local_kb (w_kb w)));
         calls1 =
           (if SOURCE_WEB_SEARCH \<in> set (sources sel) then [KbSearch, WebSearch]
            else [KbSearch, DirectAnswer]);
         web = (if SOURCE_WEB_SEARCH \<in> set (sources sel)
                then retrieve_from_web (w_serpapi w) else [])
     in case active_handler (sources sel) (domain_handler sel) of
          None \<Rightarrow>
            (Inr \<lparr>local_kb_results = kb_results, web_results = web,
                  domain_api_results = []\<rparr>, calls1)
        | Some handler \<Rightarrow>
            (case call_domain_api w handler of
               Inl e \<Rightarrow> (Inl e, calls1 @ [DomainApi])
             | Inr api_result \<Rightarrow>
                 if dict_has api_result ''error'' \<and> SOURCE_WEB_SEARCH \<notin> set (sources sel)
                 then (Inr \<lparr>local_kb_results = kb_results,
                             web_results = retrieve_from_web (w_serpapi_fallback w),
                             domain_api_results = api_result\<rparr>,
                       calls1 @ [DomainApi, WebFallback])
                 else (Inr \<lparr>local_kb_results = kb_results, web_results = web,
                             domain_api_results = api_result\<rparr>,
                       calls1 @ [DomainApi])))"
  by (simp add: retrieve_information_def Let_def kb_stage_bound [OF assms]
      split: option.splits sum.splits)

lemma retrieve_information_returns_bound:
  assumes "retrieve_information w q u sel = (Inr res, calls)"
  shows "SOURCE_LOCAL_KB \<in> set (sources sel)"
proof (rule ccontr)
  assume "SOURCE_LOCAL_KB \<notin> set (sources sel)"
  from retrieve_information_unbound [OF this] assms show False by simp
qed

text \<open>
  C10: \<open>kb_results\<close> is read on every path and bound only when \<open>local_kb\<close> is among the
  sources: a selection without \<open>local_kb\<close> makes \<open>retrieve_information\<close> raise
  \<open>UnboundLocalError\<close>, after the direct-answer call when web search is not selected
  either. A selection made by \<open>source_selection\<close> has \<open>local_kb\<close>, so the stage that
  reads the variable returns, and whatever \<open>retrieve_information\<close> then raises was
  raised by a domain integration.
\<close>

theorem kb_results_unbound:
  "(SOURCE_LOCAL_KB \<notin> set (sources sel) \<longrightarrow>
      retrieve_information w q u sel =
        (Inl KB_RESULTS_UNBOUND,
         if SOURCE_WEB_SEARCH \<in> set (sources sel) then [] else [DirectAnswer]))
   \<and> SOURCE_LOCAL_KB \<in> set (sources (source_selection u'))
   \<and> (\<exists>kb_results calls. kb_stage w (sources (source_selection u')) = (Inr kb_results, calls))
   \<and> (\<forall>e. fst (retrieve_information w q u (source_selection u')) = Inl e \<longrightarrow>
          (\<exists>handler. w_integration w handler = Inl e))"
proof -
  have b: "SOURCE_LOCAL_KB \<in> set (sources (source_selection u'))"
    by (rule source_selection_has_local_kb)
  have k: "\<exists>kb_results calls. kb_stage w (sources (source_selection u')) = (Inr kb_results, calls)"
    by (simp add: kb_stage_bound [OF b])
  have r: "\<forall>e. fst (retrieve_information w q u (source_selection u')) = Inl e \<longrightarrow>
          (\<exists>handler. w_integration w handler = Inl e)"
    using call_domain_api_raises
    by (auto simp: retrieve_information_bound [OF b] Let_def
        split: option.splits sum.splits if_splits)
  show ?thesis
    using retrieve_information_unbound b k r by blast
qed

theorem kb_results_unbound_witness:
  "retrieve_information offline_world ''hello'' []
      \<lparr>sources = [''web_search''], domain_handler = None, priority = [''web_search'']\<rparr>
     = (Inl KB_RESULTS_UNBOUND, [])
   \<and> ''local_kb'' \<in> set (sources (source_selection [(''domain'', JStr ''finance'')]))"
  using kb_results_unbound [of "\<lparr>sources = [''web_search''], domain_handler = None,
      priority = [''web_search'']\<rparr>" offline_world "''hello''" "[]"
      "[(''domain'', JStr ''finance'')]"]
  by (simp add: const_defs)


lemma kb_loop_source:
  "kb_loop i hits = Some results \<Longrightarrow> x \<in> set results \<Longrightarrow> item_source x = RESULT_SOURCE_LOCAL_KB"
proof (induction hits arbitrary: i results)
  case Nil
  then show ?case by simp
next
  case (Cons h hits)
  obtain s d where h: "h = (s, d)" by (cases h)
  show ?case
  proof (cases "s < MIN_SIMILARITY_THRESHOLD")
    case True
    with Cons h show ?thesis by simp
  next
    case False
    with Cons.prems h obtain c rest where "d = Some c" "kb_loop (i + 1) hits = Some rest"
      "results = \<lparr>item_content = c, item_score = Some s,
                   item_source = RESULT_SOURCE_LOCAL_KB, item_rank = Some (i + 1)\<rparr> # rest"
      by (auto split: option.splits)
    with Cons.IH [of "i + 1" rest] Cons.prems(2) show ?thesis by auto
  qed
qed

lemma retrieve_from_local_kb_source:
  assumes "x \<in> set (retrieve_from_local_kb kb)"
  shows "item_source x = RESULT_SOURCE_LOCAL_KB"
proof (cases kb)
  case (KB_Hits hits)
  show ?thesis
  proof (cases "kb_loop 0 hits")
    case None
    with KB_Hits assms show ?thesis by (simp add: retrieve_from_local_kb_def)
  next
    case (Some results)
    with KB_Hits assms have "x \<in> set results" by (simp add: retrieve_from_local_kb_def)
    with Some show ?thesis by (rule kb_loop_source)
  qed
qed (use assms in \<open>simp_all add: retrieve_from_local_kb_def\<close>)

lemma retrieve_from_web_source:
  "x \<in> set (retrieve_from_web rs) \<Longrightarrow> item_source x = RESULT_SOURCE_WEB"
  by (auto simp: retrieve_from_web_def)

text \<open>
  C7: when retrieval returns, a domain-API bucket that has the key \<open>error\<close> with web
  search not selected means exactly one web-search call was made, the fallback one
  after the domain API, and the web bucket holds its results; with web search selected
  no fallback call is made: the one web-search call is that of the selection and the web
  bucket holds its results.
\<close>

theorem domain_error_web_fallback:
  assumes "retrieve_information w q u sel = (Inr res, calls)"
  shows "(dict_has (domain_api_results res) ''error''
            \<and> SOURCE_WEB_SEARCH \<notin> set (sources sel) \<longrightarrow>
          count_list calls WebFallback = 1 \<and> WebSearch \<notin> set calls
          \<and> (\<exists>before. calls = before @ [DomainApi, WebFallback])
          \<and> web_results res = retrieve_from_web (w_serpapi_fallback w))
       \<and> (SOURCE_WEB_SEARCH \<in> set (sources sel) \<longrightarrow>
          WebFallback \<notin> set calls \<and> count_list calls WebSearch = 1
          \<and> web_results res = retrieve_from_web (w_serpapi w))"
proof -
  have b: "SOURCE_LOCAL_KB \<in> set (sources sel)"
    by (rule retrieve_information_returns_bound [OF assms])
  show ?thesis
    using assms unfolding retrieve_information_bound [OF b] Let_def
    by (auto simp: dict_has_def split: option.splits sum.splits if_splits)
qed

theorem domain_error_web_fallback_witness:
  "retrieve_information
      (offline_world\<lparr>w_serpapi_fallback := [[(''snippet'', JStr ''AAPL closed at 190'')]]\<rparr>)
      ''AAPL price'' []
      \<lparr>sources = [''domain_api'', ''local_kb''], domain_handler = Some ''finance'',
       priority = [''domain_api'', ''local_kb'']\<rparr>
     = (Inr \<lparr>local_kb_results = [],
             web_results = [\<lparr>item_content = JStr ''AAPL closed at 190'',
                              item_score = Some 0.8, item_source = ''web'',
                              item_rank = None\<rparr>],
             domain_api_results = [(''error'', JStr ''Missing API key'')]\<rparr>,
        [KbSearch, DirectAnswer, DomainApi, WebFallback])
   \<and> count_list [KbSearch, DirectAnswer, DomainApi, WebFallback] WebFallback = 1"
proof -
  let ?w = "offline_world\<lparr>w_serpapi_fallback := [[(''snippet'', JStr ''AAPL closed at 190'')]]\<rparr>"
  let ?sel = "\<lparr>sources = [''domain_api'', ''local_kb''], domain_handler = Some ''finance'',
       priority = [''domain_api'', ''local_kb'']\<rparr>"
  have f: "w_llm_direct offline_world = RequestFailed ''connection refused''"
    "w_kb offline_world = KB_Unavailable"
    "w_integration offline_world ''finance'' = Inr [(''error'', JStr ''Missing API key'')]"
    by (simp_all add: offline_world_def)
  have h: "get_hkgai_answer ?w = None"
    by (simp add: get_hkgai_answer_def chat_def f dict_has_def)
  have r: "retrieve_information ?w ''AAPL price'' [] ?sel
     = (Inr \<lparr>local_kb_results = [],
             web_results = [\<lparr>item_content = JStr ''AAPL closed at 190'',
                              item_score = Some 0.8, item_source = ''web'',
                              item_rank = None\<rparr>],
             domain_api_results = [(''error'', JStr ''Missing API key'')]\<rparr>,
        [KbSearch, DirectAnswer, DomainApi, WebFallback])"
    by (simp add: retrieve_information_def kb_stage_def h Let_def active_handler_def
        call_domain_api_def retrieve_from_local_kb_def retrieve_from_web_def dict_has_def
        dict_get_def const_defs f DEFAULT_SCORE_WEB_RESULTS_def RESULT_SOURCE_WEB_def)
  from domain_error_web_fallback [OF r] r show ?thesis by simp
qed


lemma get_hkgai_answer_nonempty:
  assumes "chat (w_llm_direct w) = Inr reply"
    and "truthy (dict_get reply ''content'' JNull)"
  shows "get_hkgai_answer w =
     Some \<lparr>item_content = dict_get reply ''content'' JNull, item_score = Some 1,
           item_source = HKGAI_DIRECT, item_rank = Some 0\<rparr>"
proof -
  have "dict_has reply ''content''"
    using assms(2) by (cases "map_of reply ''content''") (simp_all add: dict_get_def dict_has_def)
  then show ?thesis using assms by (simp add: get_hkgai_answer_def)
qed

lemma get_hkgai_answer_empty:
  assumes "chat (w_llm_direct w) = Inr reply"
    and "\<not> truthy (dict_get reply ''content'' JNull)"
  shows "get_hkgai_answer w = None"
  using assms by (simp add: get_hkgai_answer_def)

text \<open>
  C8: when retrieval returns and web search is not selected, the model is asked once for
  a direct answer; a reply with non-empty content is put in front of the results of the
  knowledge base as an item of rank 0 and score 1.0, and a reply with empty content adds
  nothing. When web search is selected the model is not asked, the local bucket is what
  the knowledge base returned, and no item of the local or the web bucket has the source
  of a direct answer.
\<close>

theorem direct_answer_without_web:
  assumes "retrieve_information w q u sel = (Inr res, calls)"
  shows "(SOURCE_WEB_SEARCH \<notin> set (sources sel) \<longrightarrow>
            count_list calls DirectAnswer = 1
            \<and> (\<forall>reply. chat (w_llm_direct w) = Inr reply \<longrightarrow>
                 local_kb_results res =
                   (if truthy (dict_get reply ''content'' JNull)
                    then \<lparr>item_content = dict_get reply ''content'' JNull, item_score = Some 1,
                          item_source = HKGAI_DIRECT, item_rank = Some 0\<rparr>
                         # retrieve_from_local_kb (w_kb w)
                    else retrieve_from_local_kb (w_kb w))))
       \<and> (SOURCE_WEB_SEARCH \<in> set (sources sel) \<longrightarrow>
            DirectAnswer \<notin> set calls
            \<and> local_kb_results res = retrieve_from_local_kb (w_kb w)
            \<and> (\<forall>x\<in>set (local_kb_results res) \<union> set (web_results res).
                  item_source x \<noteq> HKGAI_DIRECT))"
proof -
  have b: "SOURCE_LOCAL_KB \<in> set (sources sel)"
    by (rule retrieve_information_returns_bound [OF assms])
  have local: "local_kb_results res =
      (if SOURCE_WEB_SEARCH \<in> set (sources sel) then retrieve_from_local_kb (w_kb w)
       else (case get_hkgai_answer w of
               None \<Rightarrow> retrieve_from_local_kb (w_kb w)
             | Some hkgai_result \<Rightarrow> hkgai_result # retrieve_from_local_kb (w_kb w)))"
    using assms unfolding retrieve_information_bound [OF b] Let_def
    by (auto split: option.splits sum.splits if_splits)
  have web: "set (web_results res) \<subseteq> set (retrieve_from_web (w_serpapi w))
      \<union> set (retrieve_from_web (w_serpapi_fallback w))"
    using assms unfolding retrieve_information_bound [OF b] Let_def
    by (auto split: option.splits sum.splits if_splits)
  have calls: "count_list calls DirectAnswer = (if SOURCE_WEB_SEARCH \<in> set (sources sel) then 0 else 1)"
    using assms unfolding retrieve_information_bound [OF b] Let_def
    by (auto split: option.splits sum.splits if_splits)
  have no: "SOURCE_WEB_SEARCH \<notin> set (sources sel) \<longrightarrow>
            count_list calls DirectAnswer = 1
            \<and> (\<forall>reply. chat (w_llm_direct w) = Inr reply \<longrightarrow>
                 local_kb_results res =
                   (if truthy (dict_get reply ''content'' JNull)
                    then \<lparr>item_content = dict_get reply ''content'' JNull, item_score = Some 1,
                          item_source = HKGAI_DIRECT, item_rank = Some 0\<rparr>
                         # retrieve_from_local_kb (w_kb w)
                    else retrieve_from_local_kb (w_kb w)))"
    using calls local get_hkgai_answer_nonempty [of w] get_hkgai_answer_empty [of w]
    by auto
  have src: "\<forall>x\<in>set (retrieve_from_local_kb (w_kb w)) \<union> set (web_results res).
       item_source x \<noteq> HKGAI_DIRECT"
  proof
    fix x assume "x \<in> set (retrieve_from_local_kb (w_kb w)) \<union> set (web_results res)"
    then have "item_source x = RESULT_SOURCE_LOCAL_KB \<or> item_source x = RESULT_SOURCE_WEB"
      using web retrieve_from_local_kb_source retrieve_from_web_source by blast
    then show "item_source x \<noteq> HKGAI_DIRECT"
      by (auto simp: RESULT_SOURCE_LOCAL_KB_def RESULT_SOURCE_WEB_def HKGAI_DIRECT_def)
  qed
  have yes: "SOURCE_WEB_SEARCH \<in> set (sources sel) \<longrightarrow>
            DirectAnswer \<notin> set calls
            \<and> local_kb_results res = retrieve_from_local_kb (w_kb w)
            \<and> (\<forall>x\<in>set (local_kb_results res) \<union> set (web_results res).
                  item_source x \<noteq> HKGAI_DIRECT)"
    using calls local src by (auto simp: count_list_0_iff)
  show ?thesis using no yes by blast
qed


theorem direct_answer_without_web_witness:
  "retrieve_information
      (offline_world
         \<lparr>w_llm_direct := Body (completion ''About 17:45''),
          w_kb := KB_Hits [(0.8, Some (JStr ''Sunset table'')), (0.1, Some (JStr ''Tides''))]\<rparr>)
      ''What time is sunset in Hong Kong today?'' []
      \<lparr>sources = [''local_kb''], domain_handler = None, priority = [''local_kb'']\<rparr>
     = (Inr \<lparr>local_kb_results =
               [\<lparr>item_content = JStr ''About 17:45'', item_score = Some 1,
                 item_source = ''hkgai_direct'', item_rank = Some 0\<rparr>,
                \<lparr>item_content = JStr ''Sunset table'', item_score = Some 0.8,
                 item_source = ''local_kb'', item_rank = Some 1\<rparr>],
             web_results = [], domain_api_results = []\<rparr>,
        [KbSearch, DirectAnswer])
   \<and> count_list [KbSearch, DirectAnswer] DirectAnswer = 1"
proof -
  let ?w = "offline_world
         \<lparr>w_llm_direct := Body (completion ''About 17:45''),
          w_kb := KB_Hits [(0.8, Some (JStr ''Sunset table'')), (0.1, Some (JStr ''Tides''))]\<rparr>"
  let ?sel = "\<lparr>sources = [''local_kb''], domain_handler = None, priority = [''local_kb'']\<rparr>"
  have c: "chat (w_llm_direct ?w) =
      Inr [(''content'', JStr ''About 17:45''), (''raw'', completion ''About 17:45'')]"
    by (simp add: chat_def extract_content_def completion_def dict_get_def strip_defs Let_def)
  have h: "get_hkgai_answer ?w =
     Some \<lparr>item_content = JStr ''About 17:45'', item_score = Some 1,
           item_source = ''hkgai_direct'', item_rank = Some 0\<rparr>"
    using get_hkgai_answer_nonempty [OF c] by (simp add: dict_get_def HKGAI_DIRECT_def)
  have k: "retrieve_from_local_kb (w_kb ?w) =
      [\<lparr>item_content = JStr ''Sunset table'', item_score = Some 0.8,
        item_source = ''local_kb'', item_rank = Some 1\<rparr>]"
    by (simp add: retrieve_from_local_kb_def MIN_SIMILARITY_THRESHOLD_def
        RESULT_SOURCE_LOCAL_KB_def)
  have r: "retrieve_information ?w ''What time is sunset in Hong Kong today?'' [] ?sel
     = (Inr \<lparr>local_kb_results =
               [\<lparr>item_content = JStr ''About 17:45'', item_score = Some 1,
                 item_source = ''hkgai_direct'', item_rank = Some 0\<rparr>,
                \<lparr>item_content = JStr ''Sunset table'', item_score = Some 0.8,
                 item_source = ''local_kb'', item_rank = Some 1\<rparr>],
             web_results = [], domain_api_results = []\<rparr>,
        [KbSearch, DirectAnswer])"
    unfolding retrieve_information_def kb_stage_def Let_def h k
    by (simp add: active_handler_def const_defs)
  from direct_answer_without_web [OF r] r show ?thesis by simp
qed


section \<open>Properties of reranking\<close>

lemma length_blend: "length (blend ns rs) = length rs"
  by (induction ns rs rule: blend.induct) simp_all

lemma blend_nth:
  "i < length rs \<Longrightarrow> i < length ns \<Longrightarrow>
   blend ns rs ! i =
     (rs ! i)\<lparr>score := BM25_WEIGHT_ORIGINAL * score (rs ! i) + BM25_WEIGHT_BM25 * ns ! i,
               bm25_score := Some (ns ! i)\<rparr>"
proof (induction ns rs arbitrary: i rule: blend.induct)
  case (1 normalized_scores)
  then show ?case by simp
next
  case (2 result results)
  then show ?case by simp
next
  case (3 bm25 normalized_scores result results)
  then show ?case by (cases i) simp_all
qed

lemma py_max_Max:
  assumes "xs \<noteq> []"
  shows "py_max xs = Max (set xs)"
proof (cases xs)
  case Nil
  with assms show ?thesis by simp
next
  case (Cons a list)
  then show ?thesis using Max.set_eq_fold [of a list] by simp
qed

lemma normalize_scores_nth:
  "i < length raw \<Longrightarrow>
   normalize_scores raw ! i = raw ! i / (if Max (set raw) > 0 then Max (set raw) else 1)"
  by (cases "raw = []") (simp_all add: normalize_scores_def Let_def py_max_Max)

lemma normalize_scores_le_1:
  assumes "i < length raw"
  shows "Max (set raw) > 0 \<Longrightarrow> normalize_scores raw ! i \<le> 1"
proof -
  assume m: "Max (set raw) > 0"
  have "raw ! i \<le> Max (set raw)" using assms by simp
  then show ?thesis using m assms by (simp add: normalize_scores_nth)
qed

lemma normalize_scores_unit:
  assumes "i < length raw" and "\<forall>r\<in>set raw. 0 \<le> r"
  shows "0 \<le> normalize_scores raw ! i \<and> normalize_scores raw ! i \<le> 1"
proof (cases "Max (set raw) > 0")
  case True
  have "0 \<le> raw ! i" using assms by simp
  then have "0 \<le> normalize_scores raw ! i"
    using True assms(1) by (simp add: normalize_scores_nth)
  then show ?thesis using normalize_scores_le_1 [OF assms(1) True] by simp
next
  case False
  have "raw ! i \<le> Max (set raw)" using assms(1) by simp
  moreover have "0 \<le> raw ! i" using assms by simp
  ultimately have "raw ! i = 0" using False by simp
  then show ?thesis using False assms(1) by (simp add: normalize_scores_nth)
qed

lemma apply_bm25_reranking_Inr:
  assumes "w_bm25 w query (map content results) = Inr raw" and "raw \<noteq> []"
  shows "apply_bm25_reranking w query results = blend (normalize_scores raw) results"
  using assms by (simp add: apply_bm25_reranking_def ML_AVAILABLE_def)

lemma apply_bm25_reranking_Inl:
  assumes "w_bm25 w query (map content results) = Inl e"
  shows "apply_bm25_reranking w query results = results"
  using assms by (simp add: apply_bm25_reranking_def)

lemma length_normalize_scores: "length (normalize_scores raw) = length raw"
  by (simp add: normalize_scores_def Let_def)

lemma map_score_flatten:
  "map score (flatten res) =
     map (\<lambda>r. case item_score r of None \<Rightarrow> 0.5 | Some x \<Rightarrow> x) (local_kb_results res)
     @ map (\<lambda>r. case item_score r of None \<Rightarrow> 0.7 | Some x \<Rightarrow> x) (web_results res)
     @ (if domain_api_results res \<noteq> [] then [0.9] else [])"
  by (simp add: flatten_def DEFAULT_SCORE_LOCAL_KB_def DEFAULT_SCORE_WEB_def
      DEFAULT_SCORE_DOMAIN_API_def comp_def split: option.splits)


text \<open>
  C6, as the code has it. With more than one entry in the flattened list and a BM25
  scoring that raises nothing and returns one raw score per entry, the ranked list is
  the list of the blended entries sorted by descending score: it has every flattened
  entry once, with its score replaced by \<open>0.7 * original + 0.3 * normalized\<close> and the
  normalized score stored beside it, where the normalized score is the raw score
  divided by the maximum of the batch, or by 1 when that maximum is not positive; it
  is at most 1 when the maximum is positive, and it lies between 0 and 1 when no raw
  score is negative. When the scoring raises, the ranked list holds the flattened
  entries unchanged. The original score of an entry is the score of its item, or 0.5
  for a local item without one, 0.7 for a web item without one, and always 0.9 for the
  domain payload.
\<close>

theorem blended_scores:
  assumes "1 < length (flatten res)"
  shows "(\<forall>raw. w_bm25 w (dict_get u ''query'' (JStr [])) (map content (flatten res)) = Inr raw
            \<and> length raw = length (flatten res) \<longrightarrow>
          rerank_results w res u =
            sort_key (\<lambda>x. - score x) (blend (normalize_scores raw) (flatten res))
          \<and> mset (rerank_results w res u) = mset (blend (normalize_scores raw) (flatten res))
          \<and> sorted (map (\<lambda>x. - score x) (rerank_results w res u))
          \<and> length (blend (normalize_scores raw) (flatten res)) = length (flatten res)
          \<and> (\<forall>i<length (flatten res).
                blend (normalize_scores raw) (flatten res) ! i =
                  (flatten res ! i)
                    \<lparr>score := 0.7 * score (flatten res ! i) + 0.3 * normalize_scores raw ! i,
                     bm25_score := Some (normalize_scores raw ! i)\<rparr>
                \<and> blend (normalize_scores raw) (flatten res) ! i \<in> set (rerank_results w res u)
                \<and> normalize_scores raw ! i =
                    raw ! i / (if Max (set raw) > 0 then Max (set raw) else 1)
                \<and> (Max (set raw) > 0 \<longrightarrow> normalize_scores raw ! i \<le> 1)
                \<and> ((\<forall>r\<in>set raw. 0 \<le> r) \<longrightarrow>
                      0 \<le> normalize_scores raw ! i \<and> normalize_scores raw ! i \<le> 1))
          \<and> (\<forall>y\<in>set (rerank_results w res u). \<exists>i<length (flatten res).
              y = (flatten res ! i)
                    \<lparr>score := 0.7 * score (flatten res ! i) + 0.3 * normalize_scores raw ! i,
                     bm25_score := Some (normalize_scores raw ! i)\<rparr>))
       \<and> (\<forall>e. w_bm25 w (dict_get u ''query'' (JStr [])) (map content (flatten res)) = Inl e \<longrightarrow>
            rerank_results w res u = sort_key (\<lambda>x. - score x) (flatten res))
       \<and> map score (flatten res) =
           map (\<lambda>r. case item_score r of None \<Rightarrow> 0.5 | Some x \<Rightarrow> x) (local_kb_results res)
           @ map (\<lambda>r. case item_score r of None \<Rightarrow> 0.7 | Some x \<Rightarrow> x) (web_results res)
           @ (if domain_api_results res \<noteq> [] then [0.9] else [])"
proof -
  let ?q = "dict_get u ''query'' (JStr [])"
  let ?all = "flatten res"
  have rr: "rerank_results w res u = sort_key (\<lambda>x. - score x) (apply_bm25_reranking w ?q ?all)"
    using assms by (simp add: rerank_results_def Let_def ML_AVAILABLE_def)
  have blended: "rerank_results w res u =
            sort_key (\<lambda>x. - score x) (blend (normalize_scores raw) ?all)
          \<and> mset (rerank_results w res u) = mset (blend (normalize_scores raw) ?all)
          \<and> sorted (map (\<lambda>x. - score x) (rerank_results w res u))
          \<and> length (blend (normalize_scores raw) ?all) = length ?all
          \<and> (\<forall>i<length ?all.
                blend (normalize_scores raw) ?all ! i =
                  (?all ! i)
                    \<lparr>score := 0.7 * score (?all ! i) + 0.3 * normalize_scores raw ! i,
                     bm25_score := Some (normalize_scores raw ! i)\<rparr>
                \<and> blend (normalize_scores raw) ?all ! i \<in> set (rerank_results w res u)
                \<and> normalize_scores raw ! i =
                    raw ! i / (if Max (set raw) > 0 then Max (set raw) else 1)
                \<and> (Max (set raw) > 0 \<longrightarrow> normalize_scores raw ! i \<le> 1)
                \<and> ((\<forall>r\<in>set raw. 0 \<le> r) \<longrightarrow>
                      0 \<le> normalize_scores raw ! i \<and> normalize_scores raw ! i \<le> 1))
          \<and> (\<forall>y\<in>set (rerank_results w res u). \<exists>i<length ?all.
              y = (?all ! i)
                    \<lparr>score := 0.7 * score (?all ! i) + 0.3 * normalize_scores raw ! i,
                     bm25_score := Some (normalize_scores raw ! i)\<rparr>)"
    if raw: "w_bm25 w ?q (map content ?all) = Inr raw" and len: "length raw = length ?all"
    for raw
  proof -
    let ?b = "blend (normalize_scores raw) ?all"
    have ne: "raw \<noteq> []" using len assms by auto
    have eq: "rerank_results w res u = sort_key (\<lambda>x. - score x) ?b"
      by (simp add: rr apply_bm25_reranking_Inr [OF raw ne])
    have ms: "mset (rerank_results w res u) = mset ?b"
      by (simp add: eq)
    have st: "set (rerank_results w res u) = set ?b"
      by (simp add: eq)
    have so: "sorted (map (\<lambda>x. - score x) (rerank_results w res u))"
      by (simp add: eq)
    have nth: "?b ! i = (?all ! i)
                    \<lparr>score := 0.7 * score (?all ! i) + 0.3 * normalize_scores raw ! i,
                     bm25_score := Some (normalize_scores raw ! i)\<rparr>"
      if "i < length ?all" for i
      using blend_nth [of i ?all "normalize_scores raw"] that len
      by (simp add: length_normalize_scores BM25_WEIGHT_ORIGINAL_def BM25_WEIGHT_BM25_def)
    have idx: "?b ! i = (?all ! i)
                    \<lparr>score := 0.7 * score (?all ! i) + 0.3 * normalize_scores raw ! i,
                     bm25_score := Some (normalize_scores raw ! i)\<rparr>
                \<and> ?b ! i \<in> set (rerank_results w res u)
                \<and> normalize_scores raw ! i =
                    raw ! i / (if Max (set raw) > 0 then Max (set raw) else 1)
                \<and> (Max (set raw) > 0 \<longrightarrow> normalize_scores raw ! i \<le> 1)
                \<and> ((\<forall>r\<in>set raw. 0 \<le> r) \<longrightarrow>
                      0 \<le> normalize_scores raw ! i \<and> normalize_scores raw ! i \<le> 1)"
      if i: "i < length ?all" for i
    proof -
      have ir: "i < length raw" using i len by simp
      have "?b ! i \<in> set ?b" using i by (simp add: length_blend)
      then show ?thesis
        using nth [OF i] st normalize_scores_nth [OF ir] normalize_scores_le_1 [OF ir]
          normalize_scores_unit [OF ir]
        by blast
    qed
    have every: "\<exists>i<length ?all.
              y = (?all ! i)
                    \<lparr>score := 0.7 * score (?all ! i) + 0.3 * normalize_scores raw ! i,
                     bm25_score := Some (normalize_scores raw ! i)\<rparr>"
      if "y \<in> set (rerank_results w res u)" for y
    proof -
      from that st obtain i where "i < length ?all" and "y = ?b ! i"
        by (auto simp: in_set_conv_nth length_blend)
      then show ?thesis using nth by blast
    qed
    show ?thesis
      using eq ms so length_blend [of "normalize_scores raw" ?all] idx every by blast
  qed
  have unblended: "rerank_results w res u = sort_key (\<lambda>x. - score x) ?all"
    if "w_bm25 w ?q (map content ?all) = Inl e" for e
    using that by (simp add: rr apply_bm25_reranking_Inl)
  show ?thesis
    using blended unblended map_score_flatten [of res] by blast
qed

lemma flatten_three_web_results:
  "flatten three_web_results =
     [\<lparr>content = JStr ''Hong Kong weather'', source = ''web'', score = 0.8, bm25_score = None\<rparr>,
      \<lparr>content = JStr ''Stock market news'', source = ''web'', score = 0.8, bm25_score = None\<rparr>,
      \<lparr>content = JStr ''Bus route map'', source = ''web'', score = 0.8, bm25_score = None\<rparr>]"
  by (simp add: flatten_def three_web_results_def RESULT_SOURCE_WEB_def)

lemma normalize_weather_scores: "normalize_scores [ln (5 / 3), 0, 0] = [1, 0, 0]"
proof -
  have "0 < ln (5 / 3 :: real)" by simp
  then show ?thesis by (simp add: normalize_scores_def Let_def max_def)
qed

lemma rerank_three_web_results:
  "rerank_results weather_bm25_world three_web_results [(''query'', JStr ''weather'')] =
     [\<lparr>content = JStr ''Hong Kong weather'', source = ''web'', score = 0.86,
       bm25_score = Some 1\<rparr>,
      \<lparr>content = JStr ''Stock market news'', source = ''web'', score = 0.56,
       bm25_score = Some 0\<rparr>,
      \<lparr>content = JStr ''Bus route map'', source = ''web'', score = 0.56,
       bm25_score = Some 0\<rparr>]"
proof -
  have b: "w_bm25 weather_bm25_world q c = Inr [ln (5 / 3), 0, 0]" for q c
    by (simp add: weather_bm25_world_def)
  have "apply_bm25_reranking weather_bm25_world (JStr ''weather'')
       (flatten three_web_results) = blend [1, 0, 0] (flatten three_web_results)"
    by (simp add: apply_bm25_reranking_def ML_AVAILABLE_def b normalize_weather_scores)
  then show ?thesis
    by (simp only: rerank_results_def Let_def)
      (simp add: ML_AVAILABLE_def dict_get_def flatten_three_web_results
        BM25_WEIGHT_ORIGINAL_def BM25_WEIGHT_BM25_def)
qed

lemma flatten_two_web_results:
  "flatten two_web_results =
     [\<lparr>content = JStr ''Hong Kong weather'', source = ''web'', score = 0.8, bm25_score = None\<rparr>,
      \<lparr>content = JStr ''Hong Kong news'', source = ''web'', score = 0.8, bm25_score = None\<rparr>]"
  by (simp add: flatten_def two_web_results_def RESULT_SOURCE_WEB_def)

lemma rerank_two_web_results:
  assumes "w_bm25 w (JStr ''hong'') [JStr ''Hong Kong weather'', JStr ''Hong Kong news'']
             = Inr [a, b]"
    and "d = (if max b a > 0 then max b a else 1)"
  shows "rerank_results w two_web_results [(''query'', JStr ''hong'')] =
     sort_key (\<lambda>x. - score x)
       [\<lparr>content = JStr ''Hong Kong weather'', source = ''web'',
         score = 0.7 * 0.8 + 0.3 * (a / d), bm25_score = Some (a / d)\<rparr>,
        \<lparr>content = JStr ''Hong Kong news'', source = ''web'',
         score = 0.7 * 0.8 + 0.3 * (b / d), bm25_score = Some (b / d)\<rparr>]"
proof -
  have "apply_bm25_reranking w (JStr ''hong'') (flatten two_web_results) =
       [\<lparr>content = JStr ''Hong Kong weather'', source = ''web'',
         score = 0.7 * 0.8 + 0.3 * (a / d), bm25_score = Some (a / d)\<rparr>,
        \<lparr>content = JStr ''Hong Kong news'', source = ''web'',
         score = 0.7 * 0.8 + 0.3 * (b / d), bm25_score = Some (b / d)\<rparr>]"
    using assms
    by (simp add: flatten_two_web_results ML_AVAILABLE_def apply_bm25_reranking_def
        normalize_scores_def BM25_WEIGHT_ORIGINAL_def BM25_WEIGHT_BM25_def Let_def)
  then show ?thesis
    by (simp only: rerank_results_def Let_def)
      (simp add: flatten_two_web_results ML_AVAILABLE_def dict_get_def del: sort_key_simps)
qed

theorem blended_scores_witness:
  "1 < length (flatten three_web_results)
   \<and> rerank_results weather_bm25_world three_web_results [(''query'', JStr ''weather'')] =
       [\<lparr>content = JStr ''Hong Kong weather'', source = ''web'', score = 0.86,
         bm25_score = Some 1\<rparr>,
        \<lparr>content = JStr ''Stock market news'', source = ''web'', score = 0.56,
         bm25_score = Some 0\<rparr>,
        \<lparr>content = JStr ''Bus route map'', source = ''web'', score = 0.56,
         bm25_score = Some 0\<rparr>]
   \<and> map score (flatten three_web_results) = [0.8, 0.8, 0.8]"
  using blended_scores [of three_web_results weather_bm25_world
      "[(''query'', JStr ''weather'')]"]
  by (simp only: rerank_three_web_results) (simp add: flatten_three_web_results)

text \<open>
  The claim as stated fails: BM25 gives both of two results that hold the query term a
  negative raw score, the maximum is not positive, the divisor is 1, and the normalized
  score of each entry is the negative raw score.
\<close>

theorem normalized_bm25_unit_interval_counterexample:
  "\<not> (\<forall>w res u. 1 < length (flatten res) \<longrightarrow>
        (\<forall>y\<in>set (rerank_results w res u). \<exists>x\<in>set (flatten res). \<exists>n.
            0 \<le> n \<and> n \<le> 1 \<and> bm25_score y = Some n
            \<and> score y = 0.7 * score x + 0.3 * n))"
proof
  assume a: "\<forall>w res u. 1 < length (flatten res) \<longrightarrow>
        (\<forall>y\<in>set (rerank_results w res u). \<exists>x\<in>set (flatten res). \<exists>n.
            0 \<le> n \<and> n \<le> 1 \<and> bm25_score y = Some n
            \<and> score y = 0.7 * score x + 0.3 * n)"
  let ?w = "offline_world\<lparr>w_bm25 := \<lambda>query contents. Inr [- 1 / 5, - 1 / 5]\<rparr>"
  have r: "rerank_results ?w two_web_results [(''query'', JStr ''hong'')] =
       [\<lparr>content = JStr ''Hong Kong weather'', source = ''web'', score = 0.5,
         bm25_score = Some (- 1 / 5)\<rparr>,
        \<lparr>content = JStr ''Hong Kong news'', source = ''web'', score = 0.5,
         bm25_score = Some (- 1 / 5)\<rparr>]"
    by (subst rerank_two_web_results [where a = "- 1 / 5" and b = "- 1 / 5" and d = 1]) simp_all
  have "1 < length (flatten two_web_results)"
    by (simp add: flatten_two_web_results)
  with a have "\<forall>y\<in>set (rerank_results ?w two_web_results [(''query'', JStr ''hong'')]).
      \<exists>n. 0 \<le> n \<and> bm25_score y = Some n"
    by blast
  then have "\<forall>y\<in>set [\<lparr>content = JStr ''Hong Kong weather'', source = ''web'', score = 0.5,
         bm25_score = Some (- 1 / 5)\<rparr>,
        \<lparr>content = JStr ''Hong Kong news'', source = ''web'', score = 0.5,
         bm25_score = Some (- 1 / 5 :: real)\<rparr>]. \<exists>n. 0 \<le> n \<and> bm25_score y = Some n"
    by (simp only: r)
  then show False by simp
qed

end
